theory Spec2Isabelle
  imports Main
begin

section \<open>The e2ecortex client (integration/e2ecortex/client.go)\<close>

text \<open>
  The client is straight-line Go code around calls into libraries that are not part of
  the repository (net/http, net/url, the Prometheus API client, protobuf, snappy, YAML and
  JSON codecs). The embedding keeps every statement of the source and makes its effects
  explicit:

  \<^item> every call that leaves the client (\<open>httpClient.Do\<close>, \<open>alertmanagerClient.Do\<close>,
    \<open>querierClient.Query\<close>, \<open>next.RoundTrip\<close>, ...) is appended to a trace of calls, with
    the arguments it was given; its answer comes from the environment, a record of
    functions that may depend on the trace so far (so servers may be stateful);
  \<^item> codecs whose output the client only passes on are fields of the environment too;
  \<^item> the small pure functions of the Go standard library whose result is visible in the
    requests (\<open>url.PathEscape\<close>, \<open>url.QueryEscape\<close>, the canonical form of header keys,
    \<open>%d\<close> of \<open>fmt\<close>) are written out;
  \<^item> a returned Go \<open>error\<close> is a value of the datatype \<open>error\<close>, a nil-pointer
    dereference is the outcome \<open>Panic\<close>.
\<close>

subsection \<open>Strings, durations, contexts, errors\<close>

type_synonym bytes = string

type_synonym Duration = int  \<comment> \<open>time.Duration: nanoseconds\<close>

definition Second :: Duration where
  "Second = 1000000000"

type_synonym Time = int  \<comment> \<open>time.Time; 0 stands for the zero value \<open>time.Time{}\<close>\<close>

text \<open>A \<open>context.Context\<close>: the background context, or one derived from a parent.\<close>

datatype "context" = Background | WithCancel "context" | WithTimeout "context" Duration

text \<open>The tightest time limit a context imposes, if any.\<close>

fun ctx_timeout :: "context \<Rightarrow> Duration option" where
  "ctx_timeout Background = None"
| "ctx_timeout (WithCancel parent) = ctx_timeout parent"
| "ctx_timeout (WithTimeout parent d) =
     (case ctx_timeout parent of None \<Rightarrow> Some d | Some d' \<Rightarrow> Some (min d d'))"

text \<open>The library an error value comes from.\<close>

datatype lib = NetHTTP | NetURL | IOUtil | Proto | YAML | JSON | PromAPI

datatype error =
    ErrNotFound  \<comment> \<open>\<open>var ErrNotFound = errors.New("not found")\<close>\<close>
  | Errorf string  \<comment> \<open>\<open>fmt.Errorf(...)\<close>, with the formatted message\<close>
  | LibError lib string  \<comment> \<open>an error returned by a library call, with its message\<close>

fun Error :: "error \<Rightarrow> string" where
  "Error ErrNotFound = ''not found''"
| "Error (Errorf msg) = msg"
| "Error (LibError l msg) = msg"

text \<open>What a call does: it returns, or it panics (Go's run-time panic).\<close>

datatype 'a outcome = Panic string | Returned 'a

definition nil_dereference :: string where
  "nil_dereference = ''runtime error: invalid memory address or nil pointer dereference''"

subsection \<open>Pure functions of the Go standard library\<close>

definition lower_letters :: string where
  "lower_letters = ''abcdefghijklmnopqrstuvwxyz''"

definition upper_letters :: string where
  "upper_letters = ''ABCDEFGHIJKLMNOPQRSTUVWXYZ''"

definition decimal_digits :: string where
  "decimal_digits = ''0123456789''"

definition upperhex :: string where
  "upperhex = ''0123456789ABCDEF''"

text \<open>\<open>%d\<close> of package fmt, for an \<open>int\<close>.\<close>

function fmt_nat :: "nat \<Rightarrow> string" where
  "fmt_nat n =
     (if n < 10 then [decimal_digits ! n]
      else fmt_nat (n div 10) @ [decimal_digits ! (n mod 10)])"
  by pat_completeness auto
termination
  by (relation "measure id") auto

declare fmt_nat.simps [simp del]

definition fmt_d :: "int \<Rightarrow> string" where
  "fmt_d i = (if i < 0 then ''-'' @ fmt_nat (nat (- i)) else fmt_nat (nat i))"

text \<open>
  \<open>url.PathEscape\<close> and \<open>url.QueryEscape\<close> (net/url, \<open>shouldEscape\<close> and \<open>escape\<close>),
  for the two modes the client uses.
\<close>

datatype encoding = encodePathSegment | encodeQueryComponent

definition shouldEscape :: "char \<Rightarrow> encoding \<Rightarrow> bool" where
  "shouldEscape c mode =
     (if c \<in> set lower_letters \<or> c \<in> set upper_letters \<or> c \<in> set decimal_digits then False
      else if c \<in> set ''-_.~'' then False
      else if c \<in> set ''$&+,/:;=?@'' then
        (case mode of
           encodePathSegment \<Rightarrow>
             c = CHR ''/'' \<or> c = CHR '';'' \<or> c = CHR '','' \<or> c = CHR ''?''
         | encodeQueryComponent \<Rightarrow> True)
      else True)"

definition percent :: "char \<Rightarrow> string" where
  "percent c = [CHR ''%'', upperhex ! (of_char c div 16), upperhex ! (of_char c mod 16)]"

definition escape :: "string \<Rightarrow> encoding \<Rightarrow> string" where
  "escape s mode =
     concat (map (\<lambda>c.
       if c = CHR '' '' \<and> mode = encodeQueryComponent then ''+''
       else if shouldEscape c mode then percent c
       else [c]) s)"

definition PathEscape :: "string \<Rightarrow> string" where
  "PathEscape s = escape s encodePathSegment"

definition QueryEscape :: "string \<Rightarrow> string" where
  "QueryEscape s = escape s encodeQueryComponent"

text \<open>
  \<open>url.PathUnescape\<close>, which the server applies to a path segment: \<open>%XX\<close> becomes the byte
  with that hexadecimal code; a \<open>%\<close> that is not followed by two hexadecimal digits is an
  error.
\<close>

definition ishex :: "char \<Rightarrow> bool" where
  "ishex c \<longleftrightarrow> c \<in> set decimal_digits \<or> c \<in> set ''abcdef'' \<or> c \<in> set ''ABCDEF''"

definition unhex :: "char \<Rightarrow> nat" where
  "unhex c =
     (case map_of (zip decimal_digits [0..<10]) c of
        Some n \<Rightarrow> n
      | None \<Rightarrow>
          (case map_of (zip ''abcdef'' [10..<16]) c of
             Some n \<Rightarrow> n
           | None \<Rightarrow>
               (case map_of (zip ''ABCDEF'' [10..<16]) c of Some n \<Rightarrow> n | None \<Rightarrow> 0)))"

fun PathUnescape :: "string \<Rightarrow> string option" where
  "PathUnescape [] = Some []"
| "PathUnescape (c # cs) =
     (if c = CHR ''%'' then
        (case cs of
           a # b # rest \<Rightarrow>
             if ishex a \<and> ishex b
             then map_option ((#) (char_of (unhex a * 16 + unhex b))) (PathUnescape rest)
             else None
         | _ \<Rightarrow> None)
      else map_option ((#) c) (PathUnescape cs))"

text \<open>
  \<open>textproto.CanonicalMIMEHeaderKey\<close>: a key made of token bytes only gets an upper-case
  first letter and upper-case letters after each hyphen, all other letters lower-case;
  any other key is left as it is.
\<close>

definition validHeaderFieldByte :: "char \<Rightarrow> bool" where
  "validHeaderFieldByte c \<longleftrightarrow>
     c \<in> set lower_letters \<or> c \<in> set upper_letters \<or> c \<in> set decimal_digits \<or>
     c \<in> set (CHR 0x27 # ''!#$%&*+-.^_`|~'')"

definition toUpper :: "char \<Rightarrow> char" where
  "toUpper c = (case map_of (zip lower_letters upper_letters) c of Some u \<Rightarrow> u | None \<Rightarrow> c)"

definition toLower :: "char \<Rightarrow> char" where
  "toLower c = (case map_of (zip upper_letters lower_letters) c of Some l \<Rightarrow> l | None \<Rightarrow> c)"

fun canonicalize :: "bool \<Rightarrow> string \<Rightarrow> string" where
  "canonicalize upper [] = []"
| "canonicalize upper (c # cs) =
     (let c' = (if upper then toUpper c else toLower c)
      in c' # canonicalize (c' = CHR ''-'') cs)"

definition CanonicalMIMEHeaderKey :: "string \<Rightarrow> string" where
  "CanonicalMIMEHeaderKey s = (if list_all validHeaderFieldByte s then canonicalize True s else s)"

subsection \<open>Requests, responses and headers (net/http)\<close>

type_synonym Header = "string \<rightharpoonup> string list"  \<comment> \<open>\<open>map[string][]string\<close>\<close>

definition Header_Set :: "Header \<Rightarrow> string \<Rightarrow> string \<Rightarrow> Header" where
  "Header_Set h key v = h(CanonicalMIMEHeaderKey key \<mapsto> [v])"

definition Header_Add :: "Header \<Rightarrow> string \<Rightarrow> string \<Rightarrow> Header" where
  "Header_Add h key v =
     h(CanonicalMIMEHeaderKey key \<mapsto>
         (case h (CanonicalMIMEHeaderKey key) of None \<Rightarrow> [] | Some vs \<Rightarrow> vs) @ [v])"

definition Header_Get :: "Header \<Rightarrow> string \<Rightarrow> string" where
  "Header_Get h key =
     (case h (CanonicalMIMEHeaderKey key) of
        None \<Rightarrow> ''''
      | Some [] \<Rightarrow> ''''
      | Some (v # vs) \<Rightarrow> v)"

record request =
  Method :: string
  URL :: string
  Header :: Header
  Body :: "bytes option"  \<comment> \<open>\<open>None\<close>: a nil body\<close>
  ctx :: "context"

text \<open>
  A response of the net/http transport: its status code and its body. The body is
  \<open>http.NoBody\<close> (nothing to read, \<open>Close\<close> does nothing) or a stream that is
  read once: reading it to the end gives its bytes or an I/O error, and reading it after
  \<open>Close\<close> fails.
\<close>

datatype body = NoBody | Reader "string + bytes"

record response =
  StatusCode :: int
  resp_Body :: body
  resp_closed :: bool

definition Body_Close :: "response \<Rightarrow> response" where
  "Body_Close res = res\<lparr>resp_closed := True\<rparr>"

definition ioutil_ReadAll :: "response \<Rightarrow> error + bytes" where
  "ioutil_ReadAll res =
     (case resp_Body res of
        NoBody \<Rightarrow> Inr []
      | Reader content \<Rightarrow>
          if resp_closed res then Inl (LibError NetHTTP ''http: read on closed response body'')
          else (case content of Inl msg \<Rightarrow> Inl (LibError IOUtil msg) | Inr b \<Rightarrow> Inr b))"

definition WithContext :: "request \<Rightarrow> context \<Rightarrow> request" where
  "WithContext req c = req\<lparr>ctx := c\<rparr>"

subsection \<open>Calls that leave the client\<close>

datatype call =
    HTTP_Do request  \<comment> \<open>\<open>c.httpClient.Do(req)\<close>\<close>
  | Next_RoundTrip request  \<comment> \<open>\<open>r.next.RoundTrip(req)\<close>\<close>
  | API_Do "context" request  \<comment> \<open>\<open>c.alertmanagerClient.Do(ctx, req)\<close>\<close>
  | API_Query "context" string Time  \<comment> \<open>\<open>c.querierClient.Query(ctx, query, ts)\<close>\<close>
  | API_LabelValues "context" string Time Time
  | API_LabelNames "context" Time Time

type_synonym trace = "call list"

type_synonym RoundTripper = "trace \<Rightarrow> request \<Rightarrow> error + response"

record addOrgIDRoundTripper =
  rt_orgID :: string
  rt_next :: RoundTripper

text \<open>\<open>promapi.Config\<close>, \<open>promapi.Client\<close>, \<open>promv1.API\<close> and \<open>http.Client\<close> values.\<close>

record Config =
  Address :: string
  RoundTripper :: addOrgIDRoundTripper

datatype api_Client = api_Client Config

datatype v1_API = NewAPI api_Client

datatype http_Client = http_Client  \<comment> \<open>\<open>&http.Client{}\<close>\<close>

datatype 'ts WriteRequest = WriteRequest (Timeseries: "'ts list")

record ServerStatus_Data =
  ConfigYaml :: string

record ServerStatus =
  Data :: ServerStatus_Data

record userConfig =
  TemplateFiles :: "string \<rightharpoonup> string"
  AlertmanagerConfig :: string

record Client =
  alertmanagerClient :: "api_Client option"  \<comment> \<open>\<open>None\<close>: the nil interface value\<close>
  querierAddress :: string
  rulerAddress :: string
  distributorAddress :: string
  timeout :: Duration
  httpClient :: http_Client
  querierClient :: v1_API
  orgID :: string

text \<open>
  The environment. \<open>'ts\<close> is \<open>prompb.TimeSeries\<close>, \<open>'rg\<close> is \<open>rulefmt.RuleGroup\<close>,
  \<open>'v\<close> is \<open>model.Value\<close>, \<open>'cfg\<close> is the alertmanager's \<open>config.Config\<close>. A library
  call that fails gives its error message (\<open>Inl\<close>, or \<open>Some\<close> where nothing else is returned).
\<close>

record ('ts, 'rg, 'v, 'cfg) env =
  url_Parse :: "string \<Rightarrow> string option"
    \<comment> \<open>\<open>url.Parse\<close>: the error, \<open>None\<close> when the URL parses\<close>
  promapi_NewClient_error :: "Config \<Rightarrow> string option"
    \<comment> \<open>\<open>promapi.NewClient\<close>: the error, \<open>None\<close> when the client is created\<close>
  promapi_URL :: "api_Client \<Rightarrow> string \<Rightarrow> string"
    \<comment> \<open>\<open>client.URL(ep, nil).String()\<close>\<close>
  DefaultTransport :: RoundTripper
    \<comment> \<open>\<open>http.DefaultTransport\<close>\<close>
  proto_Marshal :: "'ts WriteRequest \<Rightarrow> string + bytes"
  snappy_Encode :: "bytes \<Rightarrow> bytes"
  yaml_Marshal_RuleGroup :: "'rg \<Rightarrow> string + bytes"
  yaml_Marshal_userConfig :: "userConfig \<Rightarrow> string + bytes"
  yaml_Unmarshal_RuleGroups :: "bytes \<Rightarrow> string + (string \<rightharpoonup> 'rg list)"
  yaml_Unmarshal_Config :: "bytes \<Rightarrow> 'cfg \<times> string option"
    \<comment> \<open>the configuration as far as it was filled in, and the error if any\<close>
  json_Unmarshal_ServerStatus :: "bytes \<Rightarrow> string + ServerStatus option"
    \<comment> \<open>into a \<open>*ServerStatus\<close>: \<open>Inr None\<close> is the nil pointer the JSON value null gives\<close>
  on_http_Do :: "trace \<Rightarrow> request \<Rightarrow> string + response"
    \<comment> \<open>the answer to \<open>c.httpClient.Do(req)\<close>\<close>
  on_api_Do :: "trace \<Rightarrow> api_Client \<Rightarrow> context \<Rightarrow> request \<Rightarrow> string + response \<times> bytes"
    \<comment> \<open>the answer to \<open>client.Do(ctx, req)\<close>: the response and the body it read\<close>
  on_api_Query :: "trace \<Rightarrow> v1_API \<Rightarrow> context \<Rightarrow> string \<Rightarrow> Time \<Rightarrow> 'v \<times> string option"
  on_api_LabelValues ::
    "trace \<Rightarrow> v1_API \<Rightarrow> context \<Rightarrow> string \<Rightarrow> Time \<Rightarrow> Time \<Rightarrow> string list \<times> string option"
  on_api_LabelNames ::
    "trace \<Rightarrow> v1_API \<Rightarrow> context \<Rightarrow> Time \<Rightarrow> Time \<Rightarrow> string list \<times> string option"

subsection \<open>Library calls\<close>

text \<open>
  \<open>http.NewRequestWithContext\<close> fails when the URL does not parse (the methods the client
  passes are the literals GET, POST and DELETE, which are always accepted). The new request
  has an empty header. \<open>http.NewRequest\<close> is the same with the background context.
\<close>

definition http_NewRequestWithContext ::
  "('ts, 'rg, 'v, 'cfg) env \<Rightarrow> context \<Rightarrow> string \<Rightarrow> string \<Rightarrow> bytes option \<Rightarrow> error + request"
where
  "http_NewRequestWithContext E c method url body =
     (case url_Parse E url of
        Some msg \<Rightarrow> Inl (LibError NetURL msg)
      | None \<Rightarrow> Inr \<lparr>Method = method, URL = url, Header = Map.empty, Body = body, ctx = c\<rparr>)"

definition http_NewRequest ::
  "('ts, 'rg, 'v, 'cfg) env \<Rightarrow> string \<Rightarrow> string \<Rightarrow> bytes option \<Rightarrow> error + request"
where
  "http_NewRequest E method url body = http_NewRequestWithContext E Background method url body"

definition promapi_NewClient :: "('ts, 'rg, 'v, 'cfg) env \<Rightarrow> Config \<Rightarrow> error + api_Client" where
  "promapi_NewClient E cfg =
     (case promapi_NewClient_error E cfg of
        Some msg \<Rightarrow> Inl (LibError PromAPI msg)
      | None \<Rightarrow> Inr (api_Client cfg))"

definition httpClient_Do ::
  "('ts, 'rg, 'v, 'cfg) env \<Rightarrow> http_Client \<Rightarrow> request \<Rightarrow> trace \<Rightarrow> (error + response) \<times> trace"
where
  "httpClient_Do E cl req tr =
     (case on_http_Do E tr req of
        Inl msg \<Rightarrow> (Inl (LibError NetHTTP msg), tr @ [HTTP_Do req])
      | Inr res \<Rightarrow> (Inr res, tr @ [HTTP_Do req]))"

definition api_Do ::
  "('ts, 'rg, 'v, 'cfg) env \<Rightarrow> api_Client \<Rightarrow> context \<Rightarrow> request \<Rightarrow> trace
     \<Rightarrow> (error + response \<times> bytes) \<times> trace"
where
  "api_Do E cl c req tr =
     (case on_api_Do E tr cl c req of
        Inl msg \<Rightarrow> (Inl (LibError PromAPI msg), tr @ [API_Do c req])
      | Inr rb \<Rightarrow> (Inr rb, tr @ [API_Do c req]))"

definition api_Query ::
  "('ts, 'rg, 'v, 'cfg) env \<Rightarrow> v1_API \<Rightarrow> context \<Rightarrow> string \<Rightarrow> Time \<Rightarrow> trace
     \<Rightarrow> ('v \<times> error option) \<times> trace"
where
  "api_Query E api c query ts tr =
     (case on_api_Query E tr api c query ts of
        (v, err) \<Rightarrow> ((v, map_option (LibError PromAPI) err), tr @ [API_Query c query ts]))"

definition api_LabelValues ::
  "('ts, 'rg, 'v, 'cfg) env \<Rightarrow> v1_API \<Rightarrow> context \<Rightarrow> string \<Rightarrow> Time \<Rightarrow> Time \<Rightarrow> trace
     \<Rightarrow> (string list \<times> error option) \<times> trace"
where
  "api_LabelValues E api c label startTime endTime tr =
     (case on_api_LabelValues E tr api c label startTime endTime of
        (v, err) \<Rightarrow>
          ((v, map_option (LibError PromAPI) err), tr @ [API_LabelValues c label startTime endTime]))"

definition api_LabelNames ::
  "('ts, 'rg, 'v, 'cfg) env \<Rightarrow> v1_API \<Rightarrow> context \<Rightarrow> Time \<Rightarrow> Time \<Rightarrow> trace
     \<Rightarrow> (string list \<times> error option) \<times> trace"
where
  "api_LabelNames E api c startTime endTime tr =
     (case on_api_LabelNames E tr api c startTime endTime of
        (v, err) \<Rightarrow>
          ((v, map_option (LibError PromAPI) err), tr @ [API_LabelNames c startTime endTime]))"

subsection \<open>The client\<close>

text \<open>\<open>NewClient\<close>: the alertmanager client is only created for a non-empty address.\<close>

definition NewClient ::
  "('ts, 'rg, 'v, 'cfg) env \<Rightarrow> string \<Rightarrow> string \<Rightarrow> string \<Rightarrow> string \<Rightarrow> string \<Rightarrow> error + Client"
where
  "NewClient E distributorAddress' querierAddress' alertmanagerAddress' rulerAddress' orgID' =
     (case promapi_NewClient E
             \<lparr>Address = ''http://'' @ querierAddress' @ ''/api/prom'',
              RoundTripper = \<lparr>rt_orgID = orgID', rt_next = DefaultTransport E\<rparr>\<rparr> of
        Inl err \<Rightarrow> Inl err
      | Inr querierAPIClient \<Rightarrow>
          (let c = \<lparr>alertmanagerClient = None,
                    querierAddress = querierAddress',
                    rulerAddress = rulerAddress',
                    distributorAddress = distributorAddress',
                    timeout = 5 * Second,
                    httpClient = http_Client,
                    querierClient = NewAPI querierAPIClient,
                    orgID = orgID'\<rparr>
           in if alertmanagerAddress' \<noteq> '''' then
                (case promapi_NewClient E
                        \<lparr>Address = ''http://'' @ alertmanagerAddress',
                         RoundTripper = \<lparr>rt_orgID = orgID', rt_next = DefaultTransport E\<rparr>\<rparr> of
                   Inl err \<Rightarrow> Inl err
                 | Inr alertmanagerAPIClient \<Rightarrow>
                     Inr (c\<lparr>alertmanagerClient := Some alertmanagerAPIClient\<rparr>))
              else Inr c))"

text \<open>\<open>Push\<close>: the response is returned after the deferred \<open>res.Body.Close()\<close> has run.\<close>

definition Push ::
  "('ts, 'rg, 'v, 'cfg) env \<Rightarrow> Client \<Rightarrow> 'ts list \<Rightarrow> trace \<Rightarrow> (error + response) \<times> trace"
where
  "Push E c timeseries tr =
     (case proto_Marshal E (WriteRequest timeseries) of
        Inl msg \<Rightarrow> (Inl (LibError Proto msg), tr)
      | Inr data \<Rightarrow>
          (let compressed = snappy_Encode E data
           in case http_NewRequest E ''POST''
                     (''http://'' @ distributorAddress c @ ''/api/prom/push'') (Some compressed) of
                Inl err \<Rightarrow> (Inl err, tr)
              | Inr req0 \<Rightarrow>
                  (let h1 = Header_Add (Header req0) ''Content-Encoding'' ''snappy'';
                       h2 = Header_Set h1 ''Content-Type'' ''application/x-protobuf'';
                       h3 = Header_Set h2 ''X-Prometheus-Remote-Write-Version'' ''0.1.0'';
                       h4 = Header_Set h3 ''X-Scope-OrgID'' (orgID c);
                       req = req0\<lparr>Header := h4\<rparr>;
                       ctx' = WithTimeout Background (timeout c)
                   in case httpClient_Do E (httpClient c) (WithContext req ctx') tr of
                        (Inl err, tr') \<Rightarrow> (Inl err, tr')
                      | (Inr res, tr') \<Rightarrow> (Inr (Body_Close res), tr'))))"

definition Query ::
  "('ts, 'rg, 'v, 'cfg) env \<Rightarrow> Client \<Rightarrow> string \<Rightarrow> Time \<Rightarrow> trace \<Rightarrow> ('v \<times> error option) \<times> trace"
where
  "Query E c query ts tr = api_Query E (querierClient c) Background query ts tr"

definition QueryRaw ::
  "('ts, 'rg, 'v, 'cfg) env \<Rightarrow> Client \<Rightarrow> string \<Rightarrow> trace
     \<Rightarrow> (error + response \<times> bytes) \<times> trace"
where
  "QueryRaw E c query tr =
     (let addr = ''http://'' @ querierAddress c @ ''/api/prom/api/v1/query?query=''
                   @ QueryEscape query;
          ctx' = WithTimeout Background (timeout c)
      in case http_NewRequestWithContext E ctx' ''GET'' addr None of
           Inl err \<Rightarrow> (Inl err, tr)
         | Inr req0 \<Rightarrow>
             (let req = req0\<lparr>Header := Header_Set (Header req0) ''X-Scope-OrgID'' (orgID c)\<rparr>
              in case httpClient_Do E (httpClient c) req tr of
                   (Inl err, tr') \<Rightarrow> (Inl err, tr')
                 | (Inr res, tr') \<Rightarrow>
                     (case ioutil_ReadAll res of
                        Inl err \<Rightarrow> (Inl err, tr')
                      | Inr body \<Rightarrow> (Inr (Body_Close res, body), tr'))))"

definition LabelValues ::
  "('ts, 'rg, 'v, 'cfg) env \<Rightarrow> Client \<Rightarrow> string \<Rightarrow> trace
     \<Rightarrow> (string list \<times> error option) \<times> trace"
where
  "LabelValues E c label tr = api_LabelValues E (querierClient c) Background label 0 0 tr"

definition LabelNames ::
  "('ts, 'rg, 'v, 'cfg) env \<Rightarrow> Client \<Rightarrow> trace \<Rightarrow> (string list \<times> error option) \<times> trace"
where
  "LabelNames E c tr = api_LabelNames E (querierClient c) Background 0 0 tr"

text \<open>\<open>addOrgIDRoundTripper.RoundTrip\<close>\<close>

definition RoundTrip ::
  "addOrgIDRoundTripper \<Rightarrow> request \<Rightarrow> trace \<Rightarrow> (error + response) \<times> trace"
where
  "RoundTrip r req tr =
     (let req' = req\<lparr>Header := Header_Set (Header req) ''X-Scope-OrgID'' (rt_orgID r)\<rparr>
      in (rt_next r tr req', tr @ [Next_RoundTrip req']))"

text \<open>
  \<open>GetAlertmanagerConfig\<close> returns \<open>(cfg, err)\<close>; both may be non-nil after
  \<open>yaml.Unmarshal\<close>. \<open>ss\<close> is a pointer that \<open>json.Unmarshal\<close> leaves nil for the JSON
  value \<open>null\<close>.
\<close>

definition GetAlertmanagerConfig ::
  "('ts, 'rg, 'v, 'cfg) env \<Rightarrow> Client \<Rightarrow> context \<Rightarrow> trace
     \<Rightarrow> ('cfg option \<times> error option) outcome \<times> trace"
where
  "GetAlertmanagerConfig E c ctx' tr =
     (case alertmanagerClient c of
        None \<Rightarrow> (Panic nil_dereference, tr)
      | Some cl \<Rightarrow>
          (let u = promapi_URL E cl ''/api/prom/api/v1/status''
           in case http_NewRequest E ''GET'' u None of
                Inl err \<Rightarrow>
                  (Returned (None, Some (Errorf (''error creating request: '' @ Error err))), tr)
              | Inr req \<Rightarrow>
                  (case api_Do E cl ctx' req tr of
                     (Inl err, tr') \<Rightarrow> (Returned (None, Some err), tr')
                   | (Inr (resp, body), tr') \<Rightarrow>
                       if StatusCode resp = 404 then (Returned (None, Some ErrNotFound), tr')
                       else
                         (case json_Unmarshal_ServerStatus E body of
                            Inl msg \<Rightarrow> (Returned (None, Some (LibError JSON msg)), tr')
                          | Inr None \<Rightarrow> (Panic nil_dereference, tr')
                          | Inr (Some ss) \<Rightarrow>
                              (case yaml_Unmarshal_Config E (ConfigYaml (Data ss)) of
                                 (cfg, err) \<Rightarrow>
                                   (Returned (Some cfg, map_option (LibError YAML) err), tr'))))))"

definition GetRuleGroups ::
  "('ts, 'rg, 'v, 'cfg) env \<Rightarrow> Client \<Rightarrow> trace \<Rightarrow> (error + (string \<rightharpoonup> 'rg list)) \<times> trace"
where
  "GetRuleGroups E c tr =
     (case http_NewRequest E ''GET'' (''http://'' @ rulerAddress c @ ''/api/prom/rules'') None of
        Inl err \<Rightarrow> (Inl err, tr)
      | Inr req0 \<Rightarrow>
          (let req = req0\<lparr>Header := Header_Set (Header req0) ''X-Scope-OrgID'' (orgID c)\<rparr>;
               ctx' = WithTimeout Background (timeout c)
           in case httpClient_Do E (httpClient c) (WithContext req ctx') tr of
                (Inl err, tr') \<Rightarrow> (Inl err, tr')
              | (Inr res, tr') \<Rightarrow>
                  (case ioutil_ReadAll res of
                     Inl err \<Rightarrow> (Inl err, tr')
                   | Inr data \<Rightarrow>
                       (case yaml_Unmarshal_RuleGroups E data of
                          Inl msg \<Rightarrow> (Inl (LibError YAML msg), tr')
                        | Inr rgs \<Rightarrow> (Inr rgs, tr')))))"

definition SetRuleGroup ::
  "('ts, 'rg, 'v, 'cfg) env \<Rightarrow> Client \<Rightarrow> 'rg \<Rightarrow> string \<Rightarrow> trace \<Rightarrow> error option \<times> trace"
where
  "SetRuleGroup E c rulegroup namespace tr =
     (case yaml_Marshal_RuleGroup E rulegroup of
        Inl msg \<Rightarrow> (Some (LibError YAML msg), tr)
      | Inr data \<Rightarrow>
          (case http_NewRequest E ''POST''
                  (''http://'' @ rulerAddress c @ ''/api/prom/rules/'' @ PathEscape namespace)
                  (Some data) of
             Inl err \<Rightarrow> (Some err, tr)
           | Inr req0 \<Rightarrow>
               (let h1 = Header_Set (Header req0) ''Content-Type'' ''application/yaml'';
                    h2 = Header_Set h1 ''X-Scope-OrgID'' (orgID c);
                    req = req0\<lparr>Header := h2\<rparr>;
                    ctx' = WithTimeout Background (timeout c)
                in case httpClient_Do E (httpClient c) (WithContext req ctx') tr of
                     (Inl err, tr') \<Rightarrow> (Some err, tr')
                   | (Inr res, tr') \<Rightarrow> (None, tr'))))"

definition DeleteRuleGroup ::
  "('ts, 'rg, 'v, 'cfg) env \<Rightarrow> Client \<Rightarrow> string \<Rightarrow> string \<Rightarrow> trace \<Rightarrow> error option \<times> trace"
where
  "DeleteRuleGroup E c namespace groupName tr =
     (case http_NewRequest E ''DELETE''
             (''http://'' @ rulerAddress c @ ''/api/prom/rules/'' @ PathEscape namespace
                @ ''/'' @ PathEscape groupName)
             None of
        Inl err \<Rightarrow> (Some err, tr)
      | Inr req0 \<Rightarrow>
          (let h1 = Header_Set (Header req0) ''Content-Type'' ''application/yaml'';
               h2 = Header_Set h1 ''X-Scope-OrgID'' (orgID c);
               req = req0\<lparr>Header := h2\<rparr>;
               ctx' = WithTimeout Background (timeout c)
           in case httpClient_Do E (httpClient c) (WithContext req ctx') tr of
                (Inl err, tr') \<Rightarrow> (Some err, tr')
              | (Inr res, tr') \<Rightarrow> (None, tr')))"

definition SetAlertmanagerConfig ::
  "('ts, 'rg, 'v, 'cfg) env \<Rightarrow> Client \<Rightarrow> context \<Rightarrow> string \<Rightarrow> (string \<rightharpoonup> string) \<Rightarrow> trace
     \<Rightarrow> error option outcome \<times> trace"
where
  "SetAlertmanagerConfig E c ctx' amConfig templates tr =
     (case alertmanagerClient c of
        None \<Rightarrow> (Panic nil_dereference, tr)
      | Some cl \<Rightarrow>
          (let u = promapi_URL E cl ''/api/v1/alerts''
           in case yaml_Marshal_userConfig E
                     \<lparr>TemplateFiles = templates, AlertmanagerConfig = amConfig\<rparr> of
                Inl msg \<Rightarrow> (Returned (Some (LibError YAML msg)), tr)
              | Inr data \<Rightarrow>
                  (case http_NewRequest E ''POST'' u (Some data) of
                     Inl err \<Rightarrow>
                       (Returned (Some (Errorf (''error creating request: '' @ Error err))), tr)
                   | Inr req \<Rightarrow>
                       (case api_Do E cl ctx' req tr of
                          (Inl err, tr') \<Rightarrow> (Returned (Some err), tr')
                        | (Inr (resp, body), tr') \<Rightarrow>
                            if StatusCode resp = 404 then (Returned (Some ErrNotFound), tr')
                            else if StatusCode resp \<noteq> 201 then
                              (Returned (Some (Errorf
                                 (''setting config failed with status '' @ fmt_d (StatusCode resp)
                                    @ '' and error '' @ body))), tr')
                            else (Returned None, tr')))))"

definition DeleteAlertmanagerConfig ::
  "('ts, 'rg, 'v, 'cfg) env \<Rightarrow> Client \<Rightarrow> context \<Rightarrow> trace \<Rightarrow> error option outcome \<times> trace"
where
  "DeleteAlertmanagerConfig E c ctx' tr =
     (case alertmanagerClient c of
        None \<Rightarrow> (Panic nil_dereference, tr)
      | Some cl \<Rightarrow>
          (let u = promapi_URL E cl ''/api/v1/alerts''
           in case http_NewRequest E ''DELETE'' u None of
                Inl err \<Rightarrow>
                  (Returned (Some (Errorf (''error creating request: '' @ Error err))), tr)
              | Inr req \<Rightarrow>
                  (case api_Do E cl ctx' req tr of
                     (Inl err, tr') \<Rightarrow> (Returned (Some err), tr')
                   | (Inr (resp, body), tr') \<Rightarrow>
                       if StatusCode resp = 404 then (Returned (Some ErrNotFound), tr')
                       else if StatusCode resp \<noteq> 200 then
                         (Returned (Some (Errorf
                            (''deleting config failed with status '' @ fmt_d (StatusCode resp)
                               @ '' and error '' @ body))), tr')
                       else (Returned None, tr'))))"

subsection \<open>Observing the calls of an operation\<close>

text \<open>The context a call runs under.\<close>

fun call_ctx :: "call \<Rightarrow> context" where
  "call_ctx (HTTP_Do req) = ctx req"
| "call_ctx (Next_RoundTrip req) = ctx req"
| "call_ctx (API_Do c req) = c"
| "call_ctx (API_Query c query ts) = c"
| "call_ctx (API_LabelValues c label startTime endTime) = c"
| "call_ctx (API_LabelNames c startTime endTime) = c"

text \<open>The calls an operation added to the trace \<open>tr\<close> it started from.\<close>

definition new_calls :: "trace \<Rightarrow> 'a \<times> trace \<Rightarrow> trace" where
  "new_calls tr r = drop (length tr) (snd r)"

text \<open>No call, or exactly one call, which satisfies \<open>P\<close>.\<close>

fun at_most_one :: "(call \<Rightarrow> bool) \<Rightarrow> trace \<Rightarrow> bool" where
  "at_most_one P [] = True"
| "at_most_one P [x] = P x"
| "at_most_one P (x # y # zs) = False"

subsection \<open>A stub environment for concrete runs\<close>

text \<open>
  A cluster that answers every request with the response \<open>res\<close>, codecs that are easy to
  read, a URL parser that rejects spaces, and the client \<open>NewClient\<close> builds for it.
\<close>

definition refuse :: RoundTripper where
  "refuse tr req = Inl (LibError NetHTTP ''connection refused'')"

definition reply :: "int \<Rightarrow> bytes \<Rightarrow> response" where
  "reply status b = \<lparr>StatusCode = status, resp_Body = Reader (Inr b), resp_closed = False\<rparr>"

definition reply_no_body :: "int \<Rightarrow> response" where
  "reply_no_body status = \<lparr>StatusCode = status, resp_Body = NoBody, resp_closed = False\<rparr>"

definition stub_env :: "response \<Rightarrow> (string, string, string list, string) env" where
  "stub_env res =
     \<lparr>url_Parse =
        (\<lambda>u. if CHR '' '' \<in> set u then Some ''invalid character in host name'' else None),
      promapi_NewClient_error = (\<lambda>cfg. None),
      promapi_URL = (\<lambda>cl ep. case cl of api_Client cfg \<Rightarrow> Address cfg @ ep),
      DefaultTransport = refuse,
      proto_Marshal = (\<lambda>w. Inr (concat (Timeseries w))),
      snappy_Encode = (\<lambda>b. ''snappy:'' @ b),
      yaml_Marshal_RuleGroup = (\<lambda>rg. Inr rg),
      yaml_Marshal_userConfig = (\<lambda>u. Inr (AlertmanagerConfig u)),
      yaml_Unmarshal_RuleGroups = (\<lambda>b. Inr Map.empty),
      yaml_Unmarshal_Config = (\<lambda>b. (b, None)),
      json_Unmarshal_ServerStatus =
        (\<lambda>b. if b = ''{}'' then Inr (Some \<lparr>Data = \<lparr>ConfigYaml = ''''\<rparr>\<rparr>)
             else if b = ''null'' then Inr None
             else Inl ''invalid character''),
      on_http_Do = (\<lambda>tr req. Inr res),
      on_api_Do =
        (\<lambda>tr cl c req.
           case resp_Body res of
             NoBody \<Rightarrow> Inr (Body_Close res, [])
           | Reader (Inl msg) \<Rightarrow> Inl msg
           | Reader (Inr b) \<Rightarrow> Inr (Body_Close res, b)),
      on_api_Query = (\<lambda>tr api c query ts. ([], None)),
      on_api_LabelValues = (\<lambda>tr api c label startTime endTime. ([], None)),
      on_api_LabelNames = (\<lambda>tr api c startTime endTime. ([], None))\<rparr>"

definition stub_querier :: api_Client where
  "stub_querier =
     api_Client \<lparr>Address = ''http://querier:80/api/prom'',
                 RoundTripper = \<lparr>rt_orgID = ''tenant-1'', rt_next = refuse\<rparr>\<rparr>"

definition stub_alertmanager :: api_Client where
  "stub_alertmanager =
     api_Client \<lparr>Address = ''http://alertmanager:80'',
                 RoundTripper = \<lparr>rt_orgID = ''tenant-1'', rt_next = refuse\<rparr>\<rparr>"

definition stub_client :: "api_Client option \<Rightarrow> Client" where
  "stub_client am =
     \<lparr>alertmanagerClient = am,
      querierAddress = ''querier:80'',
      rulerAddress = ''ruler:80'',
      distributorAddress = ''distributor:80'',
      timeout = 5000000000,
      httpClient = http_Client,
      querierClient = NewAPI stub_querier,
      orgID = ''tenant-1''\<rparr>"

section \<open>Lemmas\<close>

subsection \<open>Header keys\<close>

lemma canonical_keys [simp]:
  "CanonicalMIMEHeaderKey ''X-Scope-OrgID'' = ''X-Scope-Orgid''"
  "CanonicalMIMEHeaderKey ''Content-Type'' = ''Content-Type''"
  "CanonicalMIMEHeaderKey ''Content-Encoding'' = ''Content-Encoding''"
  "CanonicalMIMEHeaderKey ''X-Prometheus-Remote-Write-Version''
     = ''X-Prometheus-Remote-Write-Version''"
  by code_simp+

lemmas request_defs =
  http_NewRequest_def http_NewRequestWithContext_def httpClient_Do_def api_Do_def
  Header_Add_def Header_Set_def WithContext_def Let_def

lemmas stub_defs =
  stub_env_def stub_client_def stub_querier_def stub_alertmanager_def reply_def Body_Close_def

lemmas eval_defs = request_defs stub_defs fmt_d_def fmt_nat.simps decimal_digits_def

subsection \<open>Construction\<close>

lemma NewClient_stub:
  "NewClient (stub_env res) ''distributor:80'' ''querier:80'' ''alertmanager:80'' ''ruler:80''
       ''tenant-1''
     = Inr (stub_client (Some stub_alertmanager))"
  by (simp add: NewClient_def promapi_NewClient_def stub_defs Second_def)

lemma NewClient_stub_no_alertmanager:
  "NewClient (stub_env res) ''distributor:80'' ''querier:80'' '''' ''ruler:80'' ''tenant-1''
     = Inr (stub_client None)"
  by (simp add: NewClient_def promapi_NewClient_def stub_defs Second_def)

lemma NewClient_timeout:
  assumes "NewClient E d q a r t = Inr c"
  shows "timeout c = 5 * Second"
  using assms
  by (auto simp: NewClient_def Let_def split: sum.splits if_splits)

subsection \<open>Each operation makes at most one call\<close>

lemma new_calls_append [simp]: "new_calls tr (r, tr @ cs) = cs"
  by (simp add: new_calls_def)

lemma new_calls_same [simp]: "new_calls tr (r, tr) = []"
  by (simp add: new_calls_def)

lemma Push_calls:
  "at_most_one (\<lambda>x. call_ctx x = WithTimeout Background (timeout c))
     (new_calls tr (Push E c timeseries tr))"
  by (simp add: Push_def request_defs split: sum.splits)

lemma QueryRaw_calls:
  "at_most_one (\<lambda>x. call_ctx x = WithTimeout Background (timeout c))
     (new_calls tr (QueryRaw E c query tr))"
  by (auto simp: QueryRaw_def request_defs split: sum.splits option.splits)

lemma GetRuleGroups_calls:
  "at_most_one (\<lambda>x. call_ctx x = WithTimeout Background (timeout c))
     (new_calls tr (GetRuleGroups E c tr))"
  by (auto simp: GetRuleGroups_def request_defs split: sum.splits option.splits)

lemma SetRuleGroup_calls:
  "at_most_one (\<lambda>x. call_ctx x = WithTimeout Background (timeout c))
     (new_calls tr (SetRuleGroup E c rulegroup namespace tr))"
  by (simp add: SetRuleGroup_def request_defs split: sum.splits)

lemma DeleteRuleGroup_calls:
  "at_most_one (\<lambda>x. call_ctx x = WithTimeout Background (timeout c))
     (new_calls tr (DeleteRuleGroup E c namespace groupName tr))"
  by (simp add: DeleteRuleGroup_def request_defs split: sum.splits)

lemma querier_calls:
  "new_calls tr (Query E c query ts tr) = [API_Query Background query ts]"
  "new_calls tr (LabelValues E c label tr) = [API_LabelValues Background label 0 0]"
  "new_calls tr (LabelNames E c tr) = [API_LabelNames Background 0 0]"
  by (simp_all add: Query_def LabelValues_def LabelNames_def api_Query_def api_LabelValues_def
      api_LabelNames_def split: prod.splits)

lemma GetAlertmanagerConfig_calls:
  "at_most_one (\<lambda>x. call_ctx x = ctx') (new_calls tr (GetAlertmanagerConfig E c ctx' tr))"
  by (simp add: GetAlertmanagerConfig_def request_defs
      split: sum.splits option.splits prod.splits)

lemma SetAlertmanagerConfig_calls:
  "at_most_one (\<lambda>x. call_ctx x = ctx')
     (new_calls tr (SetAlertmanagerConfig E c ctx' amConfig templates tr))"
  by (simp add: SetAlertmanagerConfig_def request_defs
      split: sum.splits option.splits prod.splits)

lemma DeleteAlertmanagerConfig_calls:
  "at_most_one (\<lambda>x. call_ctx x = ctx') (new_calls tr (DeleteAlertmanagerConfig E c ctx' tr))"
  by (simp add: DeleteAlertmanagerConfig_def request_defs
      split: sum.splits option.splits prod.splits)

subsection \<open>Path escaping\<close>

lemma hex_digit: "n < 16 \<Longrightarrow> ishex (upperhex ! n) \<and> unhex (upperhex ! n) = n"
proof -
  have "\<forall>n \<in> set [0..<16]. ishex (upperhex ! n) \<and> unhex (upperhex ! n) = n"
    by code_simp
  moreover assume "n < 16"
  ultimately show ?thesis by simp
qed

lemma hex_digit_unreserved: "n < 16 \<Longrightarrow> \<not> shouldEscape (upperhex ! n) encodePathSegment"
proof -
  have "\<forall>n \<in> set [0..<16]. \<not> shouldEscape (upperhex ! n) encodePathSegment"
    by code_simp
  moreover assume "n < 16"
  ultimately show ?thesis by simp
qed

lemma of_char_bound: "of_char c < (256::nat)"
  by (cases c) simp

lemma high_nibble: "(of_char c :: nat) div 16 < 16"
  using of_char_bound [of c] by (intro less_mult_imp_div_less) simp

lemma percent_PathUnescape:
  "PathUnescape (percent c @ rest) = map_option ((#) c) (PathUnescape rest)"
proof -
  have m: "(of_char c :: nat) mod 16 < 16" by simp
  have "char_of (of_char c div 16 * 16 + of_char c mod 16 :: nat) = c" by simp
  with hex_digit [OF high_nibble, of c] hex_digit [OF m] show ?thesis
    by (simp add: percent_def)
qed

lemma unescaped_not_percent: "\<not> shouldEscape c encodePathSegment \<Longrightarrow> c \<noteq> CHR ''%''"
  by (auto simp: shouldEscape_def lower_letters_def upper_letters_def decimal_digits_def)

lemma PathEscape_Nil [simp]: "PathEscape [] = []"
  by (simp add: PathEscape_def escape_def)

lemma PathEscape_Cons:
  "PathEscape (c # s) =
     (if shouldEscape c encodePathSegment then percent c else [c]) @ PathEscape s"
  by (simp add: PathEscape_def escape_def)

lemma PathUnescape_PathEscape: "PathUnescape (PathEscape s) = Some s"
proof (induction s)
  case Nil
  show ?case by simp
next
  case (Cons c s)
  show ?case
  proof (cases "shouldEscape c encodePathSegment")
    case True
    then show ?thesis using Cons.IH by (simp add: PathEscape_Cons percent_PathUnescape)
  next
    case False
    with unescaped_not_percent [OF False] Cons.IH show ?thesis
      by (simp add: PathEscape_Cons)
  qed
qed

lemma percent_chars:
  assumes "x \<in> set (percent c)"
  shows "x = CHR ''%'' \<or> \<not> shouldEscape x encodePathSegment"
proof -
  have m: "(of_char c :: nat) mod 16 < 16" by simp
  from assms hex_digit_unreserved [OF high_nibble, of c] hex_digit_unreserved [OF m]
  show ?thesis by (auto simp: percent_def)
qed

lemma PathEscape_chars:
  "x \<in> set (PathEscape s) \<Longrightarrow> x = CHR ''%'' \<or> \<not> shouldEscape x encodePathSegment"
proof (induction s)
  case Nil
  then show ?case by simp
next
  case (Cons c s)
  from Cons.prems consider "x \<in> set (percent c)" "shouldEscape c encodePathSegment"
    | "x = c" "\<not> shouldEscape c encodePathSegment" | "x \<in> set (PathEscape s)"
    by (auto simp: PathEscape_Cons split: if_splits)
  then show ?case
  proof cases
    case 1
    then show ?thesis by (simp add: percent_chars)
  next
    case 2
    then show ?thesis by simp
  next
    case 3
    then show ?thesis by (rule Cons.IH)
  qed
qed

lemma PathEscape_no_slash: "CHR ''/'' \<notin> set (PathEscape s)"
proof
  assume "CHR ''/'' \<in> set (PathEscape s)"
  from PathEscape_chars [OF this] show False
    by (simp add: shouldEscape_def lower_letters_def upper_letters_def decimal_digits_def)
qed

section \<open>Properties of the client\<close>

subsection \<open>Alertmanager set and delete: classification of the response\<close>

text \<open>
  C1. Whenever \<open>SetAlertmanagerConfig\<close> or \<open>DeleteAlertmanagerConfig\<close> has made its call
  and the alertmanager client answered with a response and a body: the result is success
  exactly when the status is 201 (set) or 200 (delete); status 404 gives \<open>ErrNotFound\<close>;
  every other status gives an error whose message carries the status code in decimal and
  the response body.
\<close>

theorem alertmanager_set_delete_status:
  "alertmanagerClient c = Some cl \<Longrightarrow>
   on_api_Do E tr cl cx req = Inr (resp, body) \<Longrightarrow>
   (SetAlertmanagerConfig E c ctx' amConfig templates tr = (out, tr @ [API_Do cx req]) \<longrightarrow>
      out = Returned
        (if StatusCode resp = 404 then Some ErrNotFound
         else if StatusCode resp \<noteq> 201 then
           Some (Errorf (''setting config failed with status '' @ fmt_d (StatusCode resp)
                           @ '' and error '' @ body))
         else None)
      \<and> (out = Returned None \<longleftrightarrow> StatusCode resp = 201)) \<and>
   (DeleteAlertmanagerConfig E c ctx' tr = (out, tr @ [API_Do cx req]) \<longrightarrow>
      out = Returned
        (if StatusCode resp = 404 then Some ErrNotFound
         else if StatusCode resp \<noteq> 200 then
           Some (Errorf (''deleting config failed with status '' @ fmt_d (StatusCode resp)
                           @ '' and error '' @ body))
         else None)
      \<and> (out = Returned None \<longleftrightarrow> StatusCode resp = 200))"
proof (intro conjI impI)
  assume cl: "alertmanagerClient c = Some cl"
    and api: "on_api_Do E tr cl cx req = Inr (resp, body)"
  {
    assume "SetAlertmanagerConfig E c ctx' amConfig templates tr = (out, tr @ [API_Do cx req])"
    with cl api show "out = Returned
        (if StatusCode resp = 404 then Some ErrNotFound
         else if StatusCode resp \<noteq> 201 then
           Some (Errorf (''setting config failed with status '' @ fmt_d (StatusCode resp)
                           @ '' and error '' @ body))
         else None)"
      by (auto simp: SetAlertmanagerConfig_def request_defs
          split: sum.splits option.splits if_splits prod.splits)
    then show "out = Returned None \<longleftrightarrow> StatusCode resp = 201" by simp
  }
  {
    assume "DeleteAlertmanagerConfig E c ctx' tr = (out, tr @ [API_Do cx req])"
    with cl api show "out = Returned
        (if StatusCode resp = 404 then Some ErrNotFound
         else if StatusCode resp \<noteq> 200 then
           Some (Errorf (''deleting config failed with status '' @ fmt_d (StatusCode resp)
                           @ '' and error '' @ body))
         else None)"
      by (auto simp: DeleteAlertmanagerConfig_def request_defs
          split: sum.splits option.splits if_splits prod.splits)
    then show "out = Returned None \<longleftrightarrow> StatusCode resp = 200" by simp
  }
qed

theorem alertmanager_set_delete_status_witness:
  "alertmanagerClient (stub_client (Some stub_alertmanager)) = Some stub_alertmanager \<and>
   on_api_Do (stub_env (reply 500 ''boom'')) [] stub_alertmanager Background
       \<lparr>Method = ''POST'', URL = ''http://alertmanager:80/api/v1/alerts'', Header = Map.empty,
        Body = Some ''route: {}'', ctx = Background\<rparr>
     = Inr (\<lparr>StatusCode = 500, resp_Body = Reader (Inr ''boom''), resp_closed = True\<rparr>,
            ''boom'') \<and>
   SetAlertmanagerConfig (stub_env (reply 500 ''boom'')) (stub_client (Some stub_alertmanager))
       Background ''route: {}'' Map.empty []
     = (Returned (Some (Errorf ''setting config failed with status 500 and error boom'')),
        [API_Do Background
           \<lparr>Method = ''POST'', URL = ''http://alertmanager:80/api/v1/alerts'',
            Header = Map.empty, Body = Some ''route: {}'', ctx = Background\<rparr>]) \<and>
   on_api_Do (stub_env (reply 200 ''done'')) [] stub_alertmanager Background
       \<lparr>Method = ''DELETE'', URL = ''http://alertmanager:80/api/v1/alerts'', Header = Map.empty,
        Body = None, ctx = Background\<rparr>
     = Inr (\<lparr>StatusCode = 200, resp_Body = Reader (Inr ''done''), resp_closed = True\<rparr>,
            ''done'') \<and>
   DeleteAlertmanagerConfig (stub_env (reply 200 ''done'')) (stub_client (Some stub_alertmanager))
       Background []
     = (Returned None,
        [API_Do Background
           \<lparr>Method = ''DELETE'', URL = ''http://alertmanager:80/api/v1/alerts'',
            Header = Map.empty, Body = None, ctx = Background\<rparr>])"
proof -
  let ?c = "stub_client (Some stub_alertmanager)"
  let ?post = "\<lparr>Method = ''POST'', URL = ''http://alertmanager:80/api/v1/alerts'',
                Header = Map.empty, Body = Some ''route: {}'', ctx = Background\<rparr>"
  let ?delete = "\<lparr>Method = ''DELETE'', URL = ''http://alertmanager:80/api/v1/alerts'',
                  Header = Map.empty, Body = None, ctx = Background\<rparr>"
  have c: "alertmanagerClient ?c = Some stub_alertmanager"
    by (simp add: stub_defs)
  have a1: "on_api_Do (stub_env (reply 500 ''boom'')) [] stub_alertmanager Background ?post
              = Inr (\<lparr>StatusCode = 500, resp_Body = Reader (Inr ''boom''), resp_closed = True\<rparr>,
                     ''boom'')"
    by (simp add: stub_defs)
  have a2: "on_api_Do (stub_env (reply 200 ''done'')) [] stub_alertmanager Background ?delete
              = Inr (\<lparr>StatusCode = 200, resp_Body = Reader (Inr ''done''), resp_closed = True\<rparr>,
                     ''done'')"
    by (simp add: stub_defs)
  obtain o1 where s: "SetAlertmanagerConfig (stub_env (reply 500 ''boom'')) ?c Background
                        ''route: {}'' Map.empty [] = (o1, [] @ [API_Do Background ?post])"
    by (simp add: SetAlertmanagerConfig_def eval_defs)
  obtain o2 where d: "DeleteAlertmanagerConfig (stub_env (reply 200 ''done'')) ?c Background []
                        = (o2, [] @ [API_Do Background ?delete])"
    by (simp add: DeleteAlertmanagerConfig_def eval_defs)
  from alertmanager_set_delete_status [OF c a1, THEN conjunct1, rule_format, OF s]
  have "o1 = Returned (Some (Errorf ''setting config failed with status 500 and error boom''))"
    by (simp add: fmt_d_def fmt_nat.simps decimal_digits_def)
  moreover
  from alertmanager_set_delete_status [OF c a2, THEN conjunct2, rule_format, OF d]
  have "o2 = Returned None"
    by simp
  ultimately show ?thesis
    using c a1 a2 s d by simp
qed

subsection \<open>Rule groups: the status code is not looked at\<close>

text \<open>
  C2. Whenever \<open>SetRuleGroup\<close> or \<open>DeleteRuleGroup\<close> has sent its request and the HTTP
  client answered with a response (no transport error), the operation returns nil,
  whatever the status code of the response is.
\<close>

theorem rule_group_status_ignored:
  "on_http_Do E tr req = Inr res \<Longrightarrow>
   SetRuleGroup E c rulegroup namespace tr = (r, tr @ [HTTP_Do req])
     \<or> DeleteRuleGroup E c namespace groupName tr = (r, tr @ [HTTP_Do req]) \<Longrightarrow>
   r = None"
proof (erule disjE)
  assume "on_http_Do E tr req = Inr res"
    and "SetRuleGroup E c rulegroup namespace tr = (r, tr @ [HTTP_Do req])"
  then show "r = None"
    by (auto simp: SetRuleGroup_def request_defs split: sum.splits option.splits)
next
  assume "on_http_Do E tr req = Inr res"
    and "DeleteRuleGroup E c namespace groupName tr = (r, tr @ [HTTP_Do req])"
  then show "r = None"
    by (auto simp: DeleteRuleGroup_def request_defs split: sum.splits option.splits)
qed

theorem rule_group_status_ignored_witness:
  "on_http_Do (stub_env (reply 500 ''internal error'')) []
       \<lparr>Method = ''POST'', URL = ''http://ruler:80/api/prom/rules/ns'',
        Header = [''Content-Type'' \<mapsto> [''application/yaml''],
                  ''X-Scope-Orgid'' \<mapsto> [''tenant-1'']],
        Body = Some ''group'', ctx = WithTimeout Background 5000000000\<rparr>
     = Inr (reply 500 ''internal error'') \<and>
   SetRuleGroup (stub_env (reply 500 ''internal error'')) (stub_client None) ''group'' ''ns'' []
     = (None,
        [HTTP_Do \<lparr>Method = ''POST'', URL = ''http://ruler:80/api/prom/rules/ns'',
           Header = [''Content-Type'' \<mapsto> [''application/yaml''],
                     ''X-Scope-Orgid'' \<mapsto> [''tenant-1'']],
           Body = Some ''group'', ctx = WithTimeout Background 5000000000\<rparr>]) \<and>
   on_http_Do (stub_env (reply 500 ''internal error'')) []
       \<lparr>Method = ''DELETE'', URL = ''http://ruler:80/api/prom/rules/ns/group'',
        Header = [''Content-Type'' \<mapsto> [''application/yaml''],
                  ''X-Scope-Orgid'' \<mapsto> [''tenant-1'']],
        Body = None, ctx = WithTimeout Background 5000000000\<rparr>
     = Inr (reply 500 ''internal error'') \<and>
   DeleteRuleGroup (stub_env (reply 500 ''internal error'')) (stub_client None) ''ns'' ''group'' []
     = (None,
        [HTTP_Do \<lparr>Method = ''DELETE'', URL = ''http://ruler:80/api/prom/rules/ns/group'',
           Header = [''Content-Type'' \<mapsto> [''application/yaml''],
                     ''X-Scope-Orgid'' \<mapsto> [''tenant-1'']],
           Body = None, ctx = WithTimeout Background 5000000000\<rparr>])"
proof -
  let ?E = "stub_env (reply 500 ''internal error'')"
  let ?post = "\<lparr>Method = ''POST'', URL = ''http://ruler:80/api/prom/rules/ns'',
        Header = [''Content-Type'' \<mapsto> [''application/yaml''],
                  ''X-Scope-Orgid'' \<mapsto> [''tenant-1'']],
        Body = Some ''group'', ctx = WithTimeout Background 5000000000\<rparr>"
  let ?delete = "\<lparr>Method = ''DELETE'', URL = ''http://ruler:80/api/prom/rules/ns/group'',
        Header = [''Content-Type'' \<mapsto> [''application/yaml''],
                  ''X-Scope-Orgid'' \<mapsto> [''tenant-1'']],
        Body = None, ctx = WithTimeout Background 5000000000\<rparr>"
  have h1: "on_http_Do ?E [] ?post = Inr (reply 500 ''internal error'')"
    and h2: "on_http_Do ?E [] ?delete = Inr (reply 500 ''internal error'')"
    by (simp_all add: stub_defs)
  have esc: "PathEscape ''ns'' = ''ns''" "PathEscape ''group'' = ''group''"
    by code_simp+
  obtain r1 where s: "SetRuleGroup ?E (stub_client None) ''group'' ''ns'' []
                        = (r1, [] @ [HTTP_Do ?post])"
    by (simp add: SetRuleGroup_def eval_defs esc)
  obtain r2 where d: "DeleteRuleGroup ?E (stub_client None) ''ns'' ''group'' []
                        = (r2, [] @ [HTTP_Do ?delete])"
    by (simp add: DeleteRuleGroup_def eval_defs esc)
  from rule_group_status_ignored [OF h1 disjI1, OF s] have "r1 = None" .
  moreover from rule_group_status_ignored [OF h2 disjI2, OF d] have "r2 = None" .
  ultimately show ?thesis
    using h1 h2 s d by simp
qed

subsection \<open>Deadlines\<close>

text \<open>
  C3, as stated, fails: \<open>Query\<close> (the instant query) hands the background context to the
  querier API client, and that context has no deadline. Here the client is the one
  \<open>NewClient\<close> builds, and the call recorded is the only one.
\<close>

theorem query_without_deadline_counterexample:
  "NewClient (stub_env (reply 200 ''ok'')) ''distributor:80'' ''querier:80'' ''alertmanager:80''
       ''ruler:80'' ''tenant-1'' = Inr (stub_client (Some stub_alertmanager)) \<and>
   snd (Query (stub_env (reply 200 ''ok'')) (stub_client (Some stub_alertmanager)) ''up'' 0 [])
     = [API_Query Background ''up'' 0] \<and>
   ctx_timeout (call_ctx (API_Query Background ''up'' 0)) \<noteq> Some (5 * Second)"
proof (intro conjI)
  show "NewClient (stub_env (reply 200 ''ok'')) ''distributor:80'' ''querier:80''
          ''alertmanager:80'' ''ruler:80'' ''tenant-1'' = Inr (stub_client (Some stub_alertmanager))"
    by (rule NewClient_stub)
  show "snd (Query (stub_env (reply 200 ''ok'')) (stub_client (Some stub_alertmanager)) ''up'' 0 [])
          = [API_Query Background ''up'' 0]"
    by (simp add: Query_def api_Query_def stub_defs)
  show "ctx_timeout (call_ctx (API_Query Background ''up'' 0)) \<noteq> Some (5 * Second)"
    by simp
qed

text \<open>
  C3, amended. For a client built by \<open>NewClient\<close>: \<open>Push\<close>, \<open>QueryRaw\<close>, \<open>GetRuleGroups\<close>,
  \<open>SetRuleGroup\<close> and \<open>DeleteRuleGroup\<close> make at most one call, under the background
  context with a timeout of 5 seconds; \<open>Query\<close>, \<open>LabelValues\<close> and \<open>LabelNames\<close> make
  exactly one call, under the background context, which has no deadline; the three
  alertmanager operations make at most one call, under the context the caller supplied
  and no other.
\<close>

theorem deadline_disciplines:
  assumes "NewClient E distributorAddress' querierAddress' alertmanagerAddress' rulerAddress' orgID'
             = Inr c"
  shows
    "at_most_one (\<lambda>x. call_ctx x = WithTimeout Background (5 * Second))
       (new_calls tr (Push E c timeseries tr)) \<and>
     at_most_one (\<lambda>x. call_ctx x = WithTimeout Background (5 * Second))
       (new_calls tr (QueryRaw E c query tr)) \<and>
     at_most_one (\<lambda>x. call_ctx x = WithTimeout Background (5 * Second))
       (new_calls tr (GetRuleGroups E c tr)) \<and>
     at_most_one (\<lambda>x. call_ctx x = WithTimeout Background (5 * Second))
       (new_calls tr (SetRuleGroup E c rulegroup namespace tr)) \<and>
     at_most_one (\<lambda>x. call_ctx x = WithTimeout Background (5 * Second))
       (new_calls tr (DeleteRuleGroup E c namespace groupName tr)) \<and>
     ctx_timeout (WithTimeout Background (5 * Second)) = Some (5 * Second) \<and>
     new_calls tr (Query E c query ts tr) = [API_Query Background query ts] \<and>
     new_calls tr (LabelValues E c label tr) = [API_LabelValues Background label 0 0] \<and>
     new_calls tr (LabelNames E c tr) = [API_LabelNames Background 0 0] \<and>
     ctx_timeout Background = None \<and>
     at_most_one (\<lambda>x. call_ctx x = ctx') (new_calls tr (GetAlertmanagerConfig E c ctx' tr)) \<and>
     at_most_one (\<lambda>x. call_ctx x = ctx')
       (new_calls tr (SetAlertmanagerConfig E c ctx' amConfig templates tr)) \<and>
     at_most_one (\<lambda>x. call_ctx x = ctx') (new_calls tr (DeleteAlertmanagerConfig E c ctx' tr))"
proof -
  have t: "timeout c = 5 * Second"
    using assms by (rule NewClient_timeout)
  show ?thesis
    using Push_calls [of c tr E timeseries] QueryRaw_calls [of c tr E query]
      GetRuleGroups_calls [of c tr E] SetRuleGroup_calls [of c tr E rulegroup namespace]
      DeleteRuleGroup_calls [of c tr E namespace groupName]
    unfolding t
    by (simp add: querier_calls GetAlertmanagerConfig_calls SetAlertmanagerConfig_calls
        DeleteAlertmanagerConfig_calls)
qed

theorem deadline_disciplines_witness:
  "NewClient (stub_env (reply 200 ''ok'')) ''distributor:80'' ''querier:80'' ''alertmanager:80''
       ''ruler:80'' ''tenant-1'' = Inr (stub_client (Some stub_alertmanager)) \<and>
   new_calls [] (Push (stub_env (reply 200 ''ok'')) (stub_client (Some stub_alertmanager))
                   [''series''] [])
     = [HTTP_Do \<lparr>Method = ''POST'', URL = ''http://distributor:80/api/prom/push'',
          Header = [''Content-Encoding'' \<mapsto> [''snappy''],
                    ''Content-Type'' \<mapsto> [''application/x-protobuf''],
                    ''X-Prometheus-Remote-Write-Version'' \<mapsto> [''0.1.0''],
                    ''X-Scope-Orgid'' \<mapsto> [''tenant-1'']],
          Body = Some ''snappy:series'', ctx = WithTimeout Background 5000000000\<rparr>] \<and>
   at_most_one (\<lambda>x. call_ctx x = WithTimeout Background (5 * Second))
     (new_calls [] (Push (stub_env (reply 200 ''ok'')) (stub_client (Some stub_alertmanager))
                      [''series''] [])) \<and>
   new_calls [] (Query (stub_env (reply 200 ''ok'')) (stub_client (Some stub_alertmanager))
                   ''up'' 0 [])
     = [API_Query Background ''up'' 0] \<and>
   new_calls [] (DeleteAlertmanagerConfig (stub_env (reply 200 ''ok''))
                   (stub_client (Some stub_alertmanager)) (WithTimeout Background Second) [])
     = [API_Do (WithTimeout Background Second)
          \<lparr>Method = ''DELETE'', URL = ''http://alertmanager:80/api/v1/alerts'',
           Header = Map.empty, Body = None, ctx = Background\<rparr>] \<and>
   at_most_one (\<lambda>x. call_ctx x = WithTimeout Background Second)
     (new_calls [] (DeleteAlertmanagerConfig (stub_env (reply 200 ''ok''))
                      (stub_client (Some stub_alertmanager)) (WithTimeout Background Second) []))"
proof -
  let ?E = "stub_env (reply 200 ''ok'')"
  let ?c = "stub_client (Some stub_alertmanager)"
  have n: "NewClient ?E ''distributor:80'' ''querier:80'' ''alertmanager:80'' ''ruler:80''
             ''tenant-1'' = Inr ?c"
    by (rule NewClient_stub)
  note d = deadline_disciplines [OF n, where tr = "[]" and timeseries = "[''series'']"
      and query = "''up''" and ts = 0 and ctx' = "WithTimeout Background Second"]
  have push: "new_calls [] (Push ?E ?c [''series''] [])
     = [HTTP_Do \<lparr>Method = ''POST'', URL = ''http://distributor:80/api/prom/push'',
          Header = [''Content-Encoding'' \<mapsto> [''snappy''],
                    ''Content-Type'' \<mapsto> [''application/x-protobuf''],
                    ''X-Prometheus-Remote-Write-Version'' \<mapsto> [''0.1.0''],
                    ''X-Scope-Orgid'' \<mapsto> [''tenant-1'']],
          Body = Some ''snappy:series'', ctx = WithTimeout Background 5000000000\<rparr>]"
    by (simp add: Push_def eval_defs new_calls_def)
  have del: "new_calls [] (DeleteAlertmanagerConfig ?E ?c (WithTimeout Background Second) [])
     = [API_Do (WithTimeout Background Second)
          \<lparr>Method = ''DELETE'', URL = ''http://alertmanager:80/api/v1/alerts'',
           Header = Map.empty, Body = None, ctx = Background\<rparr>]"
    by (simp add: DeleteAlertmanagerConfig_def eval_defs new_calls_def)
  from d have a1: "at_most_one (\<lambda>x. call_ctx x = WithTimeout Background (5 * Second))
                     (new_calls [] (Push ?E ?c [''series''] []))"
    by (rule conjunct1)
  from d have query: "new_calls [] (Query ?E ?c ''up'' 0 []) = [API_Query Background ''up'' 0]"
    by blast
  from d have a2: "at_most_one (\<lambda>x. call_ctx x = WithTimeout Background Second)
                     (new_calls [] (DeleteAlertmanagerConfig ?E ?c
                                      (WithTimeout Background Second) []))"
    by blast
  from n push a1 query del a2 show ?thesis
    by (intro conjI)
qed

subsection \<open>Push: what the caller gets back\<close>

text \<open>
  C4, as stated, fails: the transport's response to the push has a body that can be read
  (\<open>ok\<close>), but \<open>Push\<close> returns the response after its deferred \<open>res.Body.Close()\<close>, and
  reading the body of the returned response fails.
\<close>

theorem push_body_closed_counterexample:
  "on_http_Do (stub_env (reply 200 ''ok'')) []
       \<lparr>Method = ''POST'', URL = ''http://distributor:80/api/prom/push'',
        Header = [''Content-Encoding'' \<mapsto> [''snappy''],
                  ''Content-Type'' \<mapsto> [''application/x-protobuf''],
                  ''X-Prometheus-Remote-Write-Version'' \<mapsto> [''0.1.0''],
                  ''X-Scope-Orgid'' \<mapsto> [''tenant-1'']],
        Body = Some ''snappy:series'', ctx = WithTimeout Background 5000000000\<rparr>
     = Inr \<lparr>StatusCode = 200, resp_Body = Reader (Inr ''ok''), resp_closed = False\<rparr> \<and>
   ioutil_ReadAll \<lparr>StatusCode = 200, resp_Body = Reader (Inr ''ok''), resp_closed = False\<rparr>
     = Inr ''ok'' \<and>
   Push (stub_env (reply 200 ''ok'')) (stub_client None) [''series''] []
     = (Inr \<lparr>StatusCode = 200, resp_Body = Reader (Inr ''ok''), resp_closed = True\<rparr>,
        [HTTP_Do \<lparr>Method = ''POST'', URL = ''http://distributor:80/api/prom/push'',
           Header = [''Content-Encoding'' \<mapsto> [''snappy''],
                     ''Content-Type'' \<mapsto> [''application/x-protobuf''],
                     ''X-Prometheus-Remote-Write-Version'' \<mapsto> [''0.1.0''],
                     ''X-Scope-Orgid'' \<mapsto> [''tenant-1'']],
           Body = Some ''snappy:series'', ctx = WithTimeout Background 5000000000\<rparr>]) \<and>
   ioutil_ReadAll \<lparr>StatusCode = 200, resp_Body = Reader (Inr ''ok''), resp_closed = True\<rparr>
     = Inl (LibError NetHTTP ''http: read on closed response body'')"
  by (simp add: Push_def ioutil_ReadAll_def eval_defs)

text \<open>
  C4, amended. Whenever \<open>Push\<close> has sent its request: a transport error is returned as it
  is; otherwise the transport's response is returned with the same status code, whatever
  it is, and with its body closed. Reading the body of the returned response fails when
  the body is a stream, and gives the empty body when the response has no body
  (\<open>http.NoBody\<close>).
\<close>

theorem push_returns_closed_response:
  "Push E c timeseries tr = (r, tr @ [HTTP_Do req]) \<Longrightarrow>
   (case on_http_Do E tr req of
      Inl msg \<Rightarrow> r = Inl (LibError NetHTTP msg)
    | Inr res \<Rightarrow>
        r = Inr (res\<lparr>resp_closed := True\<rparr>)
        \<and> ioutil_ReadAll (res\<lparr>resp_closed := True\<rparr>)
            = (case resp_Body res of
                 NoBody \<Rightarrow> Inr []
               | Reader content \<Rightarrow>
                   Inl (LibError NetHTTP ''http: read on closed response body'')))"
proof -
  assume p: "Push E c timeseries tr = (r, tr @ [HTTP_Do req])"
  show ?thesis
  proof (cases "on_http_Do E tr req")
    case (Inl msg)
    with p show ?thesis
      by (auto simp: Push_def request_defs split: sum.splits option.splits)
  next
    case (Inr res)
    with p have "r = Inr (res\<lparr>resp_closed := True\<rparr>)"
      by (auto simp: Push_def request_defs Body_Close_def split: sum.splits option.splits)
    moreover have "ioutil_ReadAll (res\<lparr>resp_closed := True\<rparr>)
            = (case resp_Body res of
                 NoBody \<Rightarrow> Inr []
               | Reader content \<Rightarrow>
                   Inl (LibError NetHTTP ''http: read on closed response body''))"
      by (simp add: ioutil_ReadAll_def split: body.splits)
    ultimately show ?thesis
      using Inr by simp
  qed
qed

theorem push_returns_closed_response_witness:
  "Push (stub_env (reply 503 ''unavailable'')) (stub_client None) [''series''] []
     = (Inr \<lparr>StatusCode = 503, resp_Body = Reader (Inr ''unavailable''), resp_closed = True\<rparr>,
        [HTTP_Do \<lparr>Method = ''POST'', URL = ''http://distributor:80/api/prom/push'',
           Header = [''Content-Encoding'' \<mapsto> [''snappy''],
                     ''Content-Type'' \<mapsto> [''application/x-protobuf''],
                     ''X-Prometheus-Remote-Write-Version'' \<mapsto> [''0.1.0''],
                     ''X-Scope-Orgid'' \<mapsto> [''tenant-1'']],
           Body = Some ''snappy:series'', ctx = WithTimeout Background 5000000000\<rparr>]) \<and>
   ioutil_ReadAll \<lparr>StatusCode = 503, resp_Body = Reader (Inr ''unavailable''), resp_closed = True\<rparr>
     = Inl (LibError NetHTTP ''http: read on closed response body'') \<and>
   Push (stub_env (reply_no_body 204)) (stub_client None) [''series''] []
     = (Inr \<lparr>StatusCode = 204, resp_Body = NoBody, resp_closed = True\<rparr>,
        [HTTP_Do \<lparr>Method = ''POST'', URL = ''http://distributor:80/api/prom/push'',
           Header = [''Content-Encoding'' \<mapsto> [''snappy''],
                     ''Content-Type'' \<mapsto> [''application/x-protobuf''],
                     ''X-Prometheus-Remote-Write-Version'' \<mapsto> [''0.1.0''],
                     ''X-Scope-Orgid'' \<mapsto> [''tenant-1'']],
           Body = Some ''snappy:series'', ctx = WithTimeout Background 5000000000\<rparr>]) \<and>
   ioutil_ReadAll \<lparr>StatusCode = 204, resp_Body = NoBody, resp_closed = True\<rparr> = Inr [] \<and>
   Push ((stub_env (reply 200 ''ok''))\<lparr>on_http_Do := (\<lambda>tr req. Inl ''context deadline exceeded'')\<rparr>)
       (stub_client None) [''series''] []
     = (Inl (LibError NetHTTP ''context deadline exceeded''),
        [HTTP_Do \<lparr>Method = ''POST'', URL = ''http://distributor:80/api/prom/push'',
           Header = [''Content-Encoding'' \<mapsto> [''snappy''],
                     ''Content-Type'' \<mapsto> [''application/x-protobuf''],
                     ''X-Prometheus-Remote-Write-Version'' \<mapsto> [''0.1.0''],
                     ''X-Scope-Orgid'' \<mapsto> [''tenant-1'']],
           Body = Some ''snappy:series'', ctx = WithTimeout Background 5000000000\<rparr>])"
proof -
  let ?E1 = "stub_env (reply 503 ''unavailable'')"
  let ?E2 = "stub_env (reply_no_body 204)"
  let ?E3 = "(stub_env (reply 200 ''ok''))\<lparr>on_http_Do := (\<lambda>tr req. Inl ''context deadline exceeded'')\<rparr>"
  let ?req = "\<lparr>Method = ''POST'', URL = ''http://distributor:80/api/prom/push'',
           Header = [''Content-Encoding'' \<mapsto> [''snappy''],
                     ''Content-Type'' \<mapsto> [''application/x-protobuf''],
                     ''X-Prometheus-Remote-Write-Version'' \<mapsto> [''0.1.0''],
                     ''X-Scope-Orgid'' \<mapsto> [''tenant-1'']],
           Body = Some ''snappy:series'', ctx = WithTimeout Background 5000000000\<rparr>"
  let ?res1 = "\<lparr>StatusCode = 503, resp_Body = Reader (Inr ''unavailable''), resp_closed = True\<rparr>"
  let ?res2 = "\<lparr>StatusCode = 204, resp_Body = NoBody, resp_closed = True\<rparr>"
  obtain r1 where p1: "Push ?E1 (stub_client None) [''series''] [] = (r1, [] @ [HTTP_Do ?req])"
    by (simp add: Push_def eval_defs)
  obtain r2 where p2: "Push ?E2 (stub_client None) [''series''] [] = (r2, [] @ [HTTP_Do ?req])"
    by (simp add: Push_def eval_defs reply_no_body_def)
  obtain r3 where p3: "Push ?E3 (stub_client None) [''series''] [] = (r3, [] @ [HTTP_Do ?req])"
    by (simp add: Push_def eval_defs)
  have h1: "on_http_Do ?E1 [] ?req = Inr (reply 503 ''unavailable'')"
    and h2: "on_http_Do ?E2 [] ?req = Inr (reply_no_body 204)"
    and h3: "on_http_Do ?E3 [] ?req = Inl ''context deadline exceeded''"
    by (simp_all add: stub_defs)
  from push_returns_closed_response [OF p1] h1
  have "r1 = Inr ?res1"
    and "ioutil_ReadAll ?res1 = Inl (LibError NetHTTP ''http: read on closed response body'')"
    by (simp_all add: reply_def)
  moreover
  from push_returns_closed_response [OF p2] h2
  have "r2 = Inr ?res2" and "ioutil_ReadAll ?res2 = Inr []"
    by (simp_all add: reply_no_body_def)
  moreover
  from push_returns_closed_response [OF p3] h3
  have "r3 = Inl (LibError NetHTTP ''context deadline exceeded'')"
    by simp
  ultimately show ?thesis
    using p1 p2 p3 by simp
qed

subsection \<open>Alertmanager get: status 404\<close>

text \<open>
  C5. Whenever \<open>GetAlertmanagerConfig\<close> has made its call and the response has status 404,
  the result is \<open>ErrNotFound\<close> and no configuration. (That the alertmanager answers 404 for
  a tenant without a configuration is a fact about the server.)
\<close>

theorem get_config_not_found:
  "alertmanagerClient c = Some cl \<Longrightarrow>
   on_api_Do E tr cl cx req = Inr (resp, body) \<Longrightarrow>
   StatusCode resp = 404 \<Longrightarrow>
   GetAlertmanagerConfig E c ctx' tr = (out, tr @ [API_Do cx req]) \<Longrightarrow>
   out = Returned (None, Some ErrNotFound)"
  by (auto simp: GetAlertmanagerConfig_def request_defs
      split: sum.splits option.splits if_splits prod.splits)

theorem get_config_not_found_witness:
  "alertmanagerClient (stub_client (Some stub_alertmanager)) = Some stub_alertmanager \<and>
   on_api_Do (stub_env (reply 404 ''no config'')) [] stub_alertmanager (WithCancel Background)
       \<lparr>Method = ''GET'', URL = ''http://alertmanager:80/api/prom/api/v1/status'',
        Header = Map.empty, Body = None, ctx = Background\<rparr>
     = Inr (\<lparr>StatusCode = 404, resp_Body = Reader (Inr ''no config''), resp_closed = True\<rparr>,
            ''no config'') \<and>
   GetAlertmanagerConfig (stub_env (reply 404 ''no config'')) (stub_client (Some stub_alertmanager))
       (WithCancel Background) []
     = (Returned (None, Some ErrNotFound),
        [API_Do (WithCancel Background)
           \<lparr>Method = ''GET'', URL = ''http://alertmanager:80/api/prom/api/v1/status'',
            Header = Map.empty, Body = None, ctx = Background\<rparr>])"
proof -
  let ?E = "stub_env (reply 404 ''no config'')"
  let ?c = "stub_client (Some stub_alertmanager)"
  let ?get = "\<lparr>Method = ''GET'', URL = ''http://alertmanager:80/api/prom/api/v1/status'',
        Header = Map.empty, Body = None, ctx = Background\<rparr>"
  let ?resp = "\<lparr>StatusCode = 404, resp_Body = Reader (Inr ''no config''), resp_closed = True\<rparr>"
  have c: "alertmanagerClient ?c = Some stub_alertmanager"
    by (simp add: stub_defs)
  have a: "on_api_Do ?E [] stub_alertmanager (WithCancel Background) ?get
             = Inr (?resp, ''no config'')"
    by (simp add: stub_defs)
  have st: "StatusCode ?resp = 404"
    by simp
  obtain out where g: "GetAlertmanagerConfig ?E ?c (WithCancel Background) []
                         = (out, [] @ [API_Do (WithCancel Background) ?get])"
    by (simp add: GetAlertmanagerConfig_def eval_defs)
  from get_config_not_found [OF c a st g] have "out = Returned (None, Some ErrNotFound)" .
  with c a g show ?thesis by simp
qed

subsection \<open>Push: the request\<close>

text \<open>
  C6. For every batch of time series that the protobuf codec serialises, and a distributor
  address that gives a URL that parses: \<open>Push\<close> sends one request, a POST to
  \<open>http://<distributor>/api/prom/push\<close>, whose body is the snappy encoding of the
  serialisation of one write request holding the whole batch, and whose headers are exactly
  Content-Encoding: snappy, Content-Type: application/x-protobuf,
  X-Prometheus-Remote-Write-Version: 0.1.0 and X-Scope-OrgID with the client's tenant.
\<close>

theorem push_request:
  assumes "proto_Marshal E (WriteRequest timeseries) = Inr data"
    and "url_Parse E (''http://'' @ distributorAddress c @ ''/api/prom/push'') = None"
  shows
    "\<exists>req. snd (Push E c timeseries tr) = tr @ [HTTP_Do req]
       \<and> Method req = ''POST''
       \<and> URL req = ''http://'' @ distributorAddress c @ ''/api/prom/push''
       \<and> Body req = Some (snappy_Encode E data)
       \<and> Header req = [''Content-Encoding'' \<mapsto> [''snappy''],
                        ''Content-Type'' \<mapsto> [''application/x-protobuf''],
                        ''X-Prometheus-Remote-Write-Version'' \<mapsto> [''0.1.0''],
                        ''X-Scope-Orgid'' \<mapsto> [orgID c]]
       \<and> Header_Get (Header req) ''Content-Encoding'' = ''snappy''
       \<and> Header_Get (Header req) ''Content-Type'' = ''application/x-protobuf''
       \<and> Header_Get (Header req) ''X-Prometheus-Remote-Write-Version'' = ''0.1.0''
       \<and> Header_Get (Header req) ''X-Scope-OrgID'' = orgID c"
proof -
  let ?h = "[''Content-Encoding'' \<mapsto> [''snappy''],
             ''Content-Type'' \<mapsto> [''application/x-protobuf''],
             ''X-Prometheus-Remote-Write-Version'' \<mapsto> [''0.1.0''],
             ''X-Scope-Orgid'' \<mapsto> [orgID c]]"
  let ?req = "\<lparr>Method = ''POST'', URL = ''http://'' @ distributorAddress c @ ''/api/prom/push'',
               Header = ?h, Body = Some (snappy_Encode E data),
               ctx = WithTimeout Background (timeout c)\<rparr>"
  from assms have "snd (Push E c timeseries tr) = tr @ [HTTP_Do ?req]"
    by (simp add: Push_def request_defs split: sum.splits)
  moreover have "Header_Get ?h ''Content-Encoding'' = ''snappy''"
    "Header_Get ?h ''Content-Type'' = ''application/x-protobuf''"
    "Header_Get ?h ''X-Prometheus-Remote-Write-Version'' = ''0.1.0''"
    "Header_Get ?h ''X-Scope-OrgID'' = orgID c"
    by (simp_all add: Header_Get_def)
  ultimately show ?thesis
    by (intro exI [of _ ?req]) simp
qed

theorem push_request_witness:
  "proto_Marshal (stub_env (reply 200 ''ok'')) (WriteRequest [''series-a;'', ''series-b;''])
     = Inr ''series-a;series-b;'' \<and>
   url_Parse (stub_env (reply 200 ''ok'')) ''http://distributor:80/api/prom/push'' = None \<and>
   snd (Push (stub_env (reply 200 ''ok'')) (stub_client None) [''series-a;'', ''series-b;''] [])
     = [HTTP_Do \<lparr>Method = ''POST'', URL = ''http://distributor:80/api/prom/push'',
          Header = [''Content-Encoding'' \<mapsto> [''snappy''],
                    ''Content-Type'' \<mapsto> [''application/x-protobuf''],
                    ''X-Prometheus-Remote-Write-Version'' \<mapsto> [''0.1.0''],
                    ''X-Scope-Orgid'' \<mapsto> [''tenant-1'']],
          Body = Some ''snappy:series-a;series-b;'',
          ctx = WithTimeout Background 5000000000\<rparr>]"
proof -
  let ?E = "stub_env (reply 200 ''ok'')"
  let ?c = "stub_client None"
  have m: "proto_Marshal ?E (WriteRequest [''series-a;'', ''series-b;''])
             = Inr ''series-a;series-b;''"
    by (simp add: stub_defs)
  have u: "url_Parse ?E ''http://distributor:80/api/prom/push'' = None"
    by (simp add: stub_defs)
  then have u': "url_Parse ?E (''http://'' @ distributorAddress ?c @ ''/api/prom/push'') = None"
    by (simp add: stub_defs)
  from push_request [OF m u', of "[]"] obtain req
    where s: "snd (Push ?E ?c [''series-a;'', ''series-b;''] []) = [] @ [HTTP_Do req]"
      and f: "Method req = ''POST''"
        "URL req = ''http://'' @ distributorAddress ?c @ ''/api/prom/push''"
        "Body req = Some (snappy_Encode ?E ''series-a;series-b;'')"
        "Header req = [''Content-Encoding'' \<mapsto> [''snappy''],
                        ''Content-Type'' \<mapsto> [''application/x-protobuf''],
                        ''X-Prometheus-Remote-Write-Version'' \<mapsto> [''0.1.0''],
                        ''X-Scope-Orgid'' \<mapsto> [orgID ?c]]"
    by blast
  have "ctx req = WithTimeout Background 5000000000"
    using s by (auto simp: Push_def eval_defs)
  with f have "req = \<lparr>Method = ''POST'', URL = ''http://distributor:80/api/prom/push'',
          Header = [''Content-Encoding'' \<mapsto> [''snappy''],
                    ''Content-Type'' \<mapsto> [''application/x-protobuf''],
                    ''X-Prometheus-Remote-Write-Version'' \<mapsto> [''0.1.0''],
                    ''X-Scope-Orgid'' \<mapsto> [''tenant-1'']],
          Body = Some ''snappy:series-a;series-b;'',
          ctx = WithTimeout Background 5000000000\<rparr>"
    by (cases req) (simp add: stub_defs)
  with m u s show ?thesis by simp
qed

subsection \<open>The tenant-scoping transport\<close>

text \<open>
  C7. \<open>addOrgIDRoundTripper.RoundTrip\<close> calls the wrapped transport exactly once and
  returns its answer. The request it hands over has the header X-Scope-OrgID set to the
  configured tenant, in place of any value it had before; all other headers, the method,
  the URL, the body and the context are those of the request it was given.
\<close>

theorem roundtrip_sets_tenant_header:
  "\<exists>req'. RoundTrip r req tr = (rt_next r tr req', tr @ [Next_RoundTrip req'])
     \<and> Header req' = (Header req)(''X-Scope-Orgid'' \<mapsto> [rt_orgID r])
     \<and> Header_Get (Header req') ''X-Scope-OrgID'' = rt_orgID r
     \<and> Method req' = Method req \<and> URL req' = URL req \<and> Body req' = Body req
     \<and> ctx req' = ctx req"
proof -
  let ?req' = "req\<lparr>Header := (Header req)(''X-Scope-Orgid'' \<mapsto> [rt_orgID r])\<rparr>"
  have "RoundTrip r req tr = (rt_next r tr ?req', tr @ [Next_RoundTrip ?req'])"
    by (simp add: RoundTrip_def Header_Set_def Let_def)
  moreover have "Header_Get (Header ?req') ''X-Scope-OrgID'' = rt_orgID r"
    by (simp add: Header_Get_def)
  ultimately show ?thesis
    by (intro exI [of _ ?req']) simp
qed

theorem roundtrip_sets_tenant_header_witness:
  "RoundTrip \<lparr>rt_orgID = ''tenant-1'', rt_next = (\<lambda>tr req. Inr (reply 200 ''ok''))\<rparr>
     \<lparr>Method = ''GET'', URL = ''http://querier:80/api/prom/api/v1/labels'',
      Header = [''X-Scope-Orgid'' \<mapsto> [''someone-else''], ''Accept'' \<mapsto> [''*/*'']],
      Body = None, ctx = Background\<rparr> []
   = (Inr (reply 200 ''ok''),
      [Next_RoundTrip
         \<lparr>Method = ''GET'', URL = ''http://querier:80/api/prom/api/v1/labels'',
          Header = [''X-Scope-Orgid'' \<mapsto> [''tenant-1''], ''Accept'' \<mapsto> [''*/*'']],
          Body = None, ctx = Background\<rparr>])"
proof -
  let ?r = "\<lparr>rt_orgID = ''tenant-1'', rt_next = (\<lambda>tr req. Inr (reply 200 ''ok''))\<rparr>"
  let ?req = "\<lparr>Method = ''GET'', URL = ''http://querier:80/api/prom/api/v1/labels'',
      Header = [''X-Scope-Orgid'' \<mapsto> [''someone-else''], ''Accept'' \<mapsto> [''*/*'']],
      Body = None, ctx = Background\<rparr>"
  from roundtrip_sets_tenant_header [of ?r ?req "[]"]
  obtain req' where rt: "RoundTrip ?r ?req [] = (rt_next ?r [] req', [] @ [Next_RoundTrip req'])"
    and h: "Header req' = (Header ?req)(''X-Scope-Orgid'' \<mapsto> [rt_orgID ?r])"
    and rest: "Method req' = Method ?req" "URL req' = URL ?req" "Body req' = Body ?req"
      "ctx req' = ctx ?req"
    by blast
  from h rest have "req' = \<lparr>Method = ''GET'', URL = ''http://querier:80/api/prom/api/v1/labels'',
          Header = [''X-Scope-Orgid'' \<mapsto> [''tenant-1''], ''Accept'' \<mapsto> [''*/*'']],
          Body = None, ctx = Background\<rparr>"
    by (cases req') (simp add: fun_upd_twist)
  with rt show ?thesis by simp
qed

subsection \<open>Rule groups: namespace and group name in the path\<close>

text \<open>
  C8. For every namespace and group name (a rule group that the YAML codec serialises, URLs
  that parse): the request of \<open>SetRuleGroup\<close> goes to
  \<open>/api/prom/rules/<PathEscape namespace>\<close> and the request of \<open>DeleteRuleGroup\<close> to
  \<open>/api/prom/rules/<PathEscape namespace>/<PathEscape groupName>\<close>. An escaped name holds
  no slash, so it is one path segment, and unescaping it gives the name back.
\<close>

theorem rule_group_path_escaped:
  assumes "yaml_Marshal_RuleGroup E rulegroup = Inr data"
    and "url_Parse E (''http://'' @ rulerAddress c @ ''/api/prom/rules/'' @ PathEscape namespace)
           = None"
    and "url_Parse E (''http://'' @ rulerAddress c @ ''/api/prom/rules/'' @ PathEscape namespace
                        @ ''/'' @ PathEscape groupName) = None"
  shows
    "(\<exists>req. snd (SetRuleGroup E c rulegroup namespace tr) = tr @ [HTTP_Do req]
        \<and> URL req = ''http://'' @ rulerAddress c @ ''/api/prom/rules/'' @ PathEscape namespace) \<and>
     (\<exists>req. snd (DeleteRuleGroup E c namespace groupName tr) = tr @ [HTTP_Do req]
        \<and> URL req = ''http://'' @ rulerAddress c @ ''/api/prom/rules/'' @ PathEscape namespace
                       @ ''/'' @ PathEscape groupName) \<and>
     CHR ''/'' \<notin> set (PathEscape namespace) \<and> CHR ''/'' \<notin> set (PathEscape groupName) \<and>
     PathUnescape (PathEscape namespace) = Some namespace \<and>
     PathUnescape (PathEscape groupName) = Some groupName"
proof (intro conjI)
  from assms(1,2)
  show "\<exists>req. snd (SetRuleGroup E c rulegroup namespace tr) = tr @ [HTTP_Do req]
          \<and> URL req = ''http://'' @ rulerAddress c @ ''/api/prom/rules/'' @ PathEscape namespace"
    by (simp add: SetRuleGroup_def request_defs split: sum.splits)
  from assms(3)
  show "\<exists>req. snd (DeleteRuleGroup E c namespace groupName tr) = tr @ [HTTP_Do req]
          \<and> URL req = ''http://'' @ rulerAddress c @ ''/api/prom/rules/'' @ PathEscape namespace
                         @ ''/'' @ PathEscape groupName"
    by (simp add: DeleteRuleGroup_def request_defs split: sum.splits)
qed (simp_all add: PathEscape_no_slash PathUnescape_PathEscape)

theorem rule_group_path_escaped_witness:
  "yaml_Marshal_RuleGroup (stub_env (reply 202 '''')) ''group: g'' = Inr ''group: g'' \<and>
   url_Parse (stub_env (reply 202 '''')) ''http://ruler:80/api/prom/rules/test%2Fns'' = None \<and>
   url_Parse (stub_env (reply 202 '''')) ''http://ruler:80/api/prom/rules/test%2Fns/a%20b''
     = None \<and>
   PathEscape ''test/ns'' = ''test%2Fns'' \<and> PathEscape ''a b'' = ''a%20b'' \<and>
   PathUnescape ''test%2Fns'' = Some ''test/ns'' \<and>
   snd (SetRuleGroup (stub_env (reply 202 '''')) (stub_client None) ''group: g'' ''test/ns'' [])
     = [HTTP_Do \<lparr>Method = ''POST'', URL = ''http://ruler:80/api/prom/rules/test%2Fns'',
          Header = [''Content-Type'' \<mapsto> [''application/yaml''],
                    ''X-Scope-Orgid'' \<mapsto> [''tenant-1'']],
          Body = Some ''group: g'', ctx = WithTimeout Background 5000000000\<rparr>] \<and>
   snd (DeleteRuleGroup (stub_env (reply 202 '''')) (stub_client None) ''test/ns'' ''a b'' [])
     = [HTTP_Do \<lparr>Method = ''DELETE'', URL = ''http://ruler:80/api/prom/rules/test%2Fns/a%20b'',
          Header = [''Content-Type'' \<mapsto> [''application/yaml''],
                    ''X-Scope-Orgid'' \<mapsto> [''tenant-1'']],
          Body = None, ctx = WithTimeout Background 5000000000\<rparr>]"
proof -
  let ?E = "stub_env (reply 202 '''')"
  let ?c = "stub_client None"
  have e1: "PathEscape ''test/ns'' = ''test%2Fns''" and e2: "PathEscape ''a b'' = ''a%20b''"
    by code_simp+
  have r: "rulerAddress ?c = ''ruler:80''"
    by (simp add: stub_defs)
  have y: "yaml_Marshal_RuleGroup ?E ''group: g'' = Inr ''group: g''"
    by (simp add: stub_defs)
  have u1: "url_Parse ?E ''http://ruler:80/api/prom/rules/test%2Fns'' = None"
    and u2: "url_Parse ?E ''http://ruler:80/api/prom/rules/test%2Fns/a%20b'' = None"
    by (simp_all add: stub_defs)
  from u1 have u1': "url_Parse ?E (''http://'' @ rulerAddress ?c @ ''/api/prom/rules/''
                       @ PathEscape ''test/ns'') = None"
    by (simp add: e1 r)
  from u2 have u2': "url_Parse ?E (''http://'' @ rulerAddress ?c @ ''/api/prom/rules/''
                       @ PathEscape ''test/ns'' @ ''/'' @ PathEscape ''a b'') = None"
    by (simp add: e1 e2 r)
  note t = rule_group_path_escaped [OF y u1' u2', where tr = "[]"]
  from t have un: "PathUnescape ''test%2Fns'' = Some ''test/ns''"
    by (simp add: e1)
  have s: "snd (SetRuleGroup ?E ?c ''group: g'' ''test/ns'' [])
     = [HTTP_Do \<lparr>Method = ''POST'', URL = ''http://ruler:80/api/prom/rules/test%2Fns'',
          Header = [''Content-Type'' \<mapsto> [''application/yaml''],
                    ''X-Scope-Orgid'' \<mapsto> [''tenant-1'']],
          Body = Some ''group: g'', ctx = WithTimeout Background 5000000000\<rparr>]"
    by (simp add: SetRuleGroup_def eval_defs e1)
  have d: "snd (DeleteRuleGroup ?E ?c ''test/ns'' ''a b'' [])
     = [HTTP_Do \<lparr>Method = ''DELETE'', URL = ''http://ruler:80/api/prom/rules/test%2Fns/a%20b'',
          Header = [''Content-Type'' \<mapsto> [''application/yaml''],
                    ''X-Scope-Orgid'' \<mapsto> [''tenant-1'']],
          Body = None, ctx = WithTimeout Background 5000000000\<rparr>]"
    by (simp add: DeleteRuleGroup_def eval_defs e1 e2)
  from y u1 u2 e1 e2 un s d show ?thesis
    by (intro conjI)
qed

subsection \<open>A client without an alertmanager address\<close>

text \<open>
  C9, as stated, fails: for an empty alertmanager address \<open>NewClient\<close> succeeds and leaves
  \<open>alertmanagerClient\<close> nil; \<open>GetAlertmanagerConfig\<close> then does not return an error, it
  panics on the nil interface value, before any call is made.
\<close>

theorem alertmanager_nil_panics_counterexample:
  "NewClient (stub_env (reply 200 ''ok'')) ''distributor:80'' ''querier:80'' '''' ''ruler:80''
       ''tenant-1'' = Inr (stub_client None) \<and>
   GetAlertmanagerConfig (stub_env (reply 200 ''ok'')) (stub_client None) Background []
     = (Panic nil_dereference, [])"
proof
  show "NewClient (stub_env (reply 200 ''ok'')) ''distributor:80'' ''querier:80'' '''' ''ruler:80''
          ''tenant-1'' = Inr (stub_client None)"
    by (rule NewClient_stub_no_alertmanager)
  show "GetAlertmanagerConfig (stub_env (reply 200 ''ok'')) (stub_client None) Background []
          = (Panic nil_dereference, [])"
    by (simp add: GetAlertmanagerConfig_def stub_client_def)
qed

text \<open>
  C9, amended. When the alertmanager address is empty and the querier API client can be
  created, \<open>NewClient\<close> succeeds with \<open>alertmanagerClient\<close> nil, and each of
  \<open>GetAlertmanagerConfig\<close>, \<open>SetAlertmanagerConfig\<close> and \<open>DeleteAlertmanagerConfig\<close> panics
  with a nil-pointer dereference without making any call.
\<close>

theorem empty_alertmanager_address_panics:
  assumes "promapi_NewClient_error E
             \<lparr>Address = ''http://'' @ querierAddress' @ ''/api/prom'',
              RoundTripper = \<lparr>rt_orgID = orgID', rt_next = DefaultTransport E\<rparr>\<rparr> = None"
  shows
    "\<exists>c. NewClient E distributorAddress' querierAddress' '''' rulerAddress' orgID' = Inr c
       \<and> alertmanagerClient c = None
       \<and> GetAlertmanagerConfig E c ctx' tr = (Panic nil_dereference, tr)
       \<and> SetAlertmanagerConfig E c ctx' amConfig templates tr = (Panic nil_dereference, tr)
       \<and> DeleteAlertmanagerConfig E c ctx' tr = (Panic nil_dereference, tr)"
  using assms
  by (simp add: NewClient_def promapi_NewClient_def GetAlertmanagerConfig_def
      SetAlertmanagerConfig_def DeleteAlertmanagerConfig_def)

theorem empty_alertmanager_address_panics_witness:
  "promapi_NewClient_error (stub_env (reply 200 ''ok''))
       \<lparr>Address = ''http://querier:80/api/prom'',
        RoundTripper = \<lparr>rt_orgID = ''tenant-1'', rt_next = refuse\<rparr>\<rparr> = None \<and>
   NewClient (stub_env (reply 200 ''ok'')) ''distributor:80'' ''querier:80'' '''' ''ruler:80''
       ''tenant-1'' = Inr (stub_client None) \<and>
   SetAlertmanagerConfig (stub_env (reply 200 ''ok'')) (stub_client None) Background
       ''route: {}'' Map.empty [] = (Panic nil_dereference, []) \<and>
   DeleteAlertmanagerConfig (stub_env (reply 200 ''ok'')) (stub_client None) Background []
     = (Panic nil_dereference, [])"
proof -
  let ?E = "stub_env (reply 200 ''ok'')"
  have e: "promapi_NewClient_error ?E
       \<lparr>Address = ''http://querier:80/api/prom'',
        RoundTripper = \<lparr>rt_orgID = ''tenant-1'', rt_next = refuse\<rparr>\<rparr> = None"
    by (simp add: stub_defs)
  then have e': "promapi_NewClient_error ?E
       \<lparr>Address = ''http://'' @ ''querier:80'' @ ''/api/prom'',
        RoundTripper = \<lparr>rt_orgID = ''tenant-1'', rt_next = DefaultTransport ?E\<rparr>\<rparr> = None"
    by (simp add: stub_defs)
  have n: "NewClient ?E ''distributor:80'' ''querier:80'' '''' ''ruler:80'' ''tenant-1''
             = Inr (stub_client None)"
    by (rule NewClient_stub_no_alertmanager)
  from empty_alertmanager_address_panics [OF e', of "''distributor:80''" "''ruler:80''"
      Background "[]" "''route: {}''" Map.empty] n
  have "SetAlertmanagerConfig ?E (stub_client None) Background ''route: {}'' Map.empty []
          = (Panic nil_dereference, [])"
    and "DeleteAlertmanagerConfig ?E (stub_client None) Background [] = (Panic nil_dereference, [])"
    by auto
  with e n show ?thesis by simp
qed

subsection \<open>Alertmanager get: any status other than 404\<close>

text \<open>
  C10. Whenever \<open>GetAlertmanagerConfig\<close> has made its call and the response has a status
  other than 404, the result is a function of the body alone: the error of the JSON decoder
  when the body is not valid JSON; otherwise (unless the JSON value is \<open>null\<close>, where the
  nil envelope is dereferenced) the configuration and the error, if any, of the YAML
  decoder on the embedded string. It is never an error made with \<open>fmt.Errorf\<close>, as the
  unexpected-status errors of set and delete are.
\<close>

theorem get_config_status_not_inspected:
  "alertmanagerClient c = Some cl \<Longrightarrow>
   on_api_Do E tr cl cx req = Inr (resp, body) \<Longrightarrow>
   StatusCode resp \<noteq> 404 \<Longrightarrow>
   GetAlertmanagerConfig E c ctx' tr = (out, tr @ [API_Do cx req]) \<Longrightarrow>
   out = (case json_Unmarshal_ServerStatus E body of
            Inl msg \<Rightarrow> Returned (None, Some (LibError JSON msg))
          | Inr None \<Rightarrow> Panic nil_dereference
          | Inr (Some ss) \<Rightarrow>
              (case yaml_Unmarshal_Config E (ConfigYaml (Data ss)) of
                 (cfg, err) \<Rightarrow> Returned (Some cfg, map_option (LibError YAML) err)))
   \<and> out \<noteq> Returned (x, Some (Errorf msg'))"
  by (auto simp: GetAlertmanagerConfig_def request_defs
      split: sum.splits option.splits if_splits prod.splits)

theorem get_config_status_not_inspected_witness:
  "alertmanagerClient (stub_client (Some stub_alertmanager)) = Some stub_alertmanager \<and>
   on_api_Do (stub_env (reply 500 ''<html>oops</html>'')) [] stub_alertmanager Background
       \<lparr>Method = ''GET'', URL = ''http://alertmanager:80/api/prom/api/v1/status'',
        Header = Map.empty, Body = None, ctx = Background\<rparr>
     = Inr (\<lparr>StatusCode = 500, resp_Body = Reader (Inr ''<html>oops</html>''),
             resp_closed = True\<rparr>,
            ''<html>oops</html>'') \<and>
   GetAlertmanagerConfig (stub_env (reply 500 ''<html>oops</html>''))
       (stub_client (Some stub_alertmanager)) Background []
     = (Returned (None, Some (LibError JSON ''invalid character'')),
        [API_Do Background
           \<lparr>Method = ''GET'', URL = ''http://alertmanager:80/api/prom/api/v1/status'',
            Header = Map.empty, Body = None, ctx = Background\<rparr>]) \<and>
   on_api_Do (stub_env (reply 500 ''{}'')) [] stub_alertmanager Background
       \<lparr>Method = ''GET'', URL = ''http://alertmanager:80/api/prom/api/v1/status'',
        Header = Map.empty, Body = None, ctx = Background\<rparr>
     = Inr (\<lparr>StatusCode = 500, resp_Body = Reader (Inr ''{}''), resp_closed = True\<rparr>, ''{}'') \<and>
   GetAlertmanagerConfig (stub_env (reply 500 ''{}'')) (stub_client (Some stub_alertmanager))
       Background []
     = (Returned (Some '''', None),
        [API_Do Background
           \<lparr>Method = ''GET'', URL = ''http://alertmanager:80/api/prom/api/v1/status'',
            Header = Map.empty, Body = None, ctx = Background\<rparr>])"
proof -
  let ?c = "stub_client (Some stub_alertmanager)"
  let ?get = "\<lparr>Method = ''GET'', URL = ''http://alertmanager:80/api/prom/api/v1/status'',
        Header = Map.empty, Body = None, ctx = Background\<rparr>"
  let ?E1 = "stub_env (reply 500 ''<html>oops</html>'')"
  let ?r1 = "\<lparr>StatusCode = 500, resp_Body = Reader (Inr ''<html>oops</html>''),
              resp_closed = True\<rparr>"
  let ?E2 = "stub_env (reply 500 ''{}'')"
  let ?r2 = "\<lparr>StatusCode = 500, resp_Body = Reader (Inr ''{}''), resp_closed = True\<rparr>"
  have c: "alertmanagerClient ?c = Some stub_alertmanager"
    by (simp add: stub_defs)
  have a1: "on_api_Do ?E1 [] stub_alertmanager Background ?get = Inr (?r1, ''<html>oops</html>'')"
    by (simp add: stub_defs)
  have a2: "on_api_Do ?E2 [] stub_alertmanager Background ?get = Inr (?r2, ''{}'')"
    by (simp add: stub_defs)
  have s1: "StatusCode ?r1 \<noteq> 404" and s2: "StatusCode ?r2 \<noteq> 404"
    by simp_all
  obtain o1 where g1: "GetAlertmanagerConfig ?E1 ?c Background []
                         = (o1, [] @ [API_Do Background ?get])"
    by (simp add: GetAlertmanagerConfig_def eval_defs)
  obtain o2 where g2: "GetAlertmanagerConfig ?E2 ?c Background []
                         = (o2, [] @ [API_Do Background ?get])"
    by (simp add: GetAlertmanagerConfig_def eval_defs)
  from get_config_status_not_inspected [OF c a1 s1 g1, THEN conjunct1]
  have "o1 = Returned (None, Some (LibError JSON ''invalid character''))"
    by (simp add: stub_defs)
  moreover
  from get_config_status_not_inspected [OF c a2 s2 g2, THEN conjunct1]
  have "o2 = Returned (Some '''', None)"
    by (simp add: stub_defs)
  ultimately show ?thesis
    using c a1 a2 g1 g2 by simp
qed

end
